theory Spec2Isabelle
  imports Main
begin

section \<open>Values, errors and responses\<close>

text \<open>
  The billing router (\<open>app/routers/billing.py\<close>) answers with a JSON body, raises an
  \<open>HTTPException\<close> with a status code and a detail string, or lets a Python exception
  escape, which the server turns into status 500.
\<close>

datatype exn =
    ValueError | TypeError | AttributeError | KeyError | OverflowError | JSONDecodeError
  | RedisError

datatype body =
    Ack string
  | AckPaid string bool
  | StripeCheckout string
  | RazorpayOrder string int string string
  | Allowed

datatype response =
    Ok body
  | HTTPError nat string
  | Raised exn

fun status_code :: "response \<Rightarrow> nat" where
  "status_code (Ok b) = 200"
| "status_code (HTTPError c d) = c"
| "status_code (Raised e) = 500"

text \<open>A Python \<open>float\<close>: the finite value \<open>m * 2 ^ e\<close> (a negative \<open>e\<close> divides), an
  infinity, or not a number.\<close>

datatype pyfloat = Finite int int | Infinite | NaN

text \<open>What \<open>json.loads\<close> returns: Python values built from a JSON text.\<close>

datatype json =
    JNull | JBool bool | JInt int | JFloat pyfloat | JStr string
  | JList "json list" | JObj "(string \<times> json) list"

text \<open>Python truthiness, as used by \<open>if payment_id:\<close> and \<open>if user_id:\<close>.\<close>

fun truthy :: "json \<Rightarrow> bool" where
  "truthy JNull = False"
| "truthy (JBool b) = b"
| "truthy (JInt n) = (n \<noteq> 0)"
| "truthy (JFloat f) = (case f of Finite m e \<Rightarrow> m \<noteq> 0 | Infinite \<Rightarrow> True | NaN \<Rightarrow> True)"
| "truthy (JStr s) = (s \<noteq> [])"
| "truthy (JList xs) = (xs \<noteq> [])"
| "truthy (JObj kvs) = (kvs \<noteq> [])"

text \<open>\<open>d.get(k, default)\<close>: only a dict has \<open>get\<close>.\<close>

fun py_get :: "json \<Rightarrow> string \<Rightarrow> json \<Rightarrow> exn + json" where
  "py_get (JObj kvs) k dflt = (case map_of kvs k of None \<Rightarrow> Inr dflt | Some v \<Rightarrow> Inr v)"
| "py_get j k dflt = Inl AttributeError"

text \<open>\<open>d[k]\<close> with a string key.\<close>

fun py_getitem :: "json \<Rightarrow> string \<Rightarrow> exn + json" where
  "py_getitem (JObj kvs) k = (case map_of kvs k of None \<Rightarrow> Inl KeyError | Some v \<Rightarrow> Inr v)"
| "py_getitem j k = Inl TypeError"

subsection \<open>Python's \<open>int()\<close> on a string\<close>

definition is_space :: "char \<Rightarrow> bool" where
  "is_space c = (c \<in> set [CHR 0x20, CHR 0x09, CHR 0x0A, CHR 0x0B, CHR 0x0C, CHR 0x0D,
                             CHR 0x1C, CHR 0x1D, CHR 0x1E, CHR 0x1F, CHR 0x85, CHR 0xA0])"

definition is_digit :: "char \<Rightarrow> bool" where
  "is_digit c = ((48::nat) \<le> of_char c \<and> (of_char c :: nat) \<le> 57)"

definition digit_val :: "char \<Rightarrow> int" where
  "digit_val c = int (of_char c) - 48"

definition strip :: "string \<Rightarrow> string" where
  "strip s = rev (dropWhile is_space (rev (dropWhile is_space s)))"

text \<open>Decimal digits, with single underscores allowed between digits.\<close>

fun parse_digits :: "int \<Rightarrow> bool \<Rightarrow> string \<Rightarrow> int option" where
  "parse_digits acc prev [] = (if prev then Some acc else None)"
| "parse_digits acc prev (c # cs) =
     (if is_digit c then parse_digits (10 * acc + digit_val c) True cs
      else if c = CHR ''_'' \<and> prev then parse_digits acc False cs
      else None)"

definition py_int_str :: "string \<Rightarrow> int option" where
  "py_int_str s =
     (case strip s of
        [] \<Rightarrow> None
      | c # cs \<Rightarrow>
          if c = CHR ''-'' then map_option uminus (parse_digits 0 False cs)
          else if c = CHR ''+'' then parse_digits 0 False cs
          else parse_digits 0 False (c # cs))"

text \<open>\<open>int(x)\<close> on a value of a parsed payload. A finite float is cut towards zero.\<close>

fun py_int :: "json \<Rightarrow> exn + int" where
  "py_int (JInt n) = Inr n"
| "py_int (JBool b) = Inr (if b then 1 else 0)"
| "py_int (JFloat f) =
     (case f of
        Finite m e \<Rightarrow>
          Inr (if 0 \<le> e then m * 2 ^ nat e else sgn m * (\<bar>m\<bar> div 2 ^ nat (- e)))
      | Infinite \<Rightarrow> Inl OverflowError
      | NaN \<Rightarrow> Inl ValueError)"
| "py_int (JStr s) = (case py_int_str s of None \<Rightarrow> Inl ValueError | Some n \<Rightarrow> Inr n)"
| "py_int j = Inl TypeError"

subsection \<open>\<open>str()\<close> of an integer, for the f-strings\<close>

definition digit_char :: "nat \<Rightarrow> char" where
  "digit_char d = char_of (48 + d)"

function str_nat :: "nat \<Rightarrow> string" where
  "str_nat n = (if n < 10 then [digit_char n] else str_nat (n div 10) @ [digit_char (n mod 10)])"
  by pat_completeness auto
termination by (relation "measure id") auto

declare str_nat.simps [simp del]

definition str_int :: "int \<Rightarrow> string" where
  "str_int i = (if i < 0 then CHR ''-'' # str_nat (nat (- i)) else str_nat (nat i))"

section \<open>Configuration and external collaborators\<close>

text \<open>
  \<open>Settings\<close> of \<open>app/config.py\<close>, and the calls into the Stripe SDK, the Razorpay SDK,
  \<open>hmac\<close>/\<open>hashlib\<close> and \<open>json\<close>, which are not part of the repository. They are
  parameters of the model: one \<open>env\<close> fixes what each of them answers.
\<close>

record stripe_event =
  ev_id :: string
  ev_type :: string
  ev_metadata :: "string \<rightharpoonup> string"
  ev_customer :: "string option"

datatype construct_result =
    ConstructOk stripe_event
  | ConstructValueError
  | ConstructSignatureError
  | ConstructOther string

datatype create_result =
    CreateOk string
  | CreateStripeError string
  | CreateOther string

record order =
  order_id :: string
  order_amount :: int
  order_currency :: string

record env =
  payment_gateway :: string
  frontend_url :: string
  stripe_webhook_secret :: string
  stripe_price_id :: string
  razorpay_key_id :: string
  razorpay_key_secret :: string
  razorpay_webhook_secret :: string
  razorpay_plan_amount :: int
  stripe_construct_event :: "string \<Rightarrow> string \<Rightarrow> string \<Rightarrow> construct_result"
  stripe_session_create :: "string \<Rightarrow> string \<Rightarrow> int \<Rightarrow> string \<Rightarrow> string \<Rightarrow> create_result"
  razorpay_order_create :: "int \<Rightarrow> int \<Rightarrow> string + order"
  razorpay_utility_verify :: "string \<Rightarrow> string \<Rightarrow> string \<Rightarrow> bool"
  hmac_sha256_hex :: "string \<Rightarrow> string \<Rightarrow> string"
  json_loads :: "string \<Rightarrow> json option"
  py_format :: "json \<Rightarrow> string"

section \<open>State: the entitlement ledger and the key-value store\<close>

record user =
  user_email :: string
  user_is_paid :: bool
  user_stripe_customer_id :: "string option"

text \<open>A stored value: the text written by \<open>SET\<close>/\<open>SETEX\<close>, or a number kept by
  \<open>INCR\<close>. The handlers store only the text \<open>processed\<close>, which is no number.\<close>

datatype rval = Marker string | Counter int

text \<open>
  \<open>users\<close> is the committed \<open>users\<close> table by primary key and \<open>commits\<close> counts the
  calls of \<open>db.commit()\<close>. \<open>kv\<close> is the Redis keyspace: a value with the time at which it
  expires, if any; \<open>connected\<close> is \<open>RedisService.redis is not None\<close>. \<open>clock\<close> is the
  time in seconds and \<open>provider_calls\<close> counts outbound calls to a payment provider.
\<close>

record world =
  users :: "int \<rightharpoonup> user"
  commits :: nat
  connected :: bool
  kv :: "string \<rightharpoonup> (rval \<times> int option)"
  clock :: int
  provider_calls :: nat

definition advance :: "int \<Rightarrow> world \<Rightarrow> world" where
  "advance d w = w\<lparr>clock := clock w + d\<rparr>"

text \<open>A key is there until its expiry time is reached.\<close>

definition live :: "world \<Rightarrow> string \<Rightarrow> (rval \<times> int option) option" where
  "live w k =
     (case kv w k of
        None \<Rightarrow> None
      | Some (v, None) \<Rightarrow> Some (v, None)
      | Some (v, Some e) \<Rightarrow> if clock w < e then Some (v, Some e) else None)"

subsection \<open>\<open>RedisService\<close> (\<open>app/services/redis_service.py\<close>)\<close>

definition redis_get :: "world \<Rightarrow> string \<Rightarrow> rval option" where
  "redis_get w k = (if \<not> connected w then None else map_option fst (live w k))"

text \<open>\<open>set(key, value, ttl)\<close>: \<open>SETEX\<close> when \<open>ttl\<close> is truthy (it refuses a negative
  time), a plain \<open>SET\<close> otherwise.\<close>

definition redis_set :: "world \<Rightarrow> string \<Rightarrow> string \<Rightarrow> int option \<Rightarrow> (exn + bool) \<times> world" where
  "redis_set w k v ttl =
     (if \<not> connected w then (Inr False, w)
      else case ttl of
        None \<Rightarrow> (Inr True, w\<lparr>kv := (kv w)(k \<mapsto> (Marker v, None))\<rparr>)
      | Some t \<Rightarrow>
          if t = 0 then (Inr True, w\<lparr>kv := (kv w)(k \<mapsto> (Marker v, None))\<rparr>)
          else if t < 0 then (Inl RedisError, w)
          else (Inr True, w\<lparr>kv := (kv w)(k \<mapsto> (Marker v, Some (clock w + t)))\<rparr>))"

definition redis_exists :: "world \<Rightarrow> string \<Rightarrow> bool" where
  "redis_exists w k = (if \<not> connected w then False else live w k \<noteq> None)"

text \<open>\<open>INCR\<close>: a missing key counts from 0 and gets no expiry; the expiry of a present
  key is kept; a value that is no number is an error.\<close>

definition redis_incr :: "world \<Rightarrow> string \<Rightarrow> (exn + int) \<times> world" where
  "redis_incr w k =
     (if \<not> connected w then (Inr 0, w)
      else case live w k of
        None \<Rightarrow> (Inr 1, w\<lparr>kv := (kv w)(k \<mapsto> (Counter 1, None))\<rparr>)
      | Some (Counter n, e) \<Rightarrow> (Inr (n + 1), w\<lparr>kv := (kv w)(k \<mapsto> (Counter (n + 1), e))\<rparr>)
      | Some (Marker s, e) \<Rightarrow> (Inl RedisError, w))"

definition redis_expire :: "world \<Rightarrow> string \<Rightarrow> int \<Rightarrow> bool \<times> world" where
  "redis_expire w k ttl =
     (if \<not> connected w then (False, w)
      else case live w k of
        None \<Rightarrow> (False, w)
      | Some (v, e) \<Rightarrow> (True, w\<lparr>kv := (kv w)(k \<mapsto> (v, Some (clock w + ttl)))\<rparr>))"

section \<open>Rate limiter (\<open>app/middleware/rate_limit.py\<close>)\<close>

record rate_limiter =
  max_requests :: int
  window_seconds :: int

definition auth_rate_limiter :: rate_limiter where
  "auth_rate_limiter = \<lparr>max_requests = 5, window_seconds = 60\<rparr>"

definition rate_key :: "string option \<Rightarrow> string \<Rightarrow> string" where
  "rate_key client path =
     ''ratelimit:'' @ path @ '':'' @ (case client of None \<Rightarrow> ''unknown'' | Some h \<Rightarrow> h)"

definition check_rate_limit ::
  "rate_limiter \<Rightarrow> string option \<Rightarrow> string \<Rightarrow> world \<Rightarrow> response \<times> world" where
  "check_rate_limit lim client path w =
     (let key = rate_key client path in
      case redis_incr w key of
        (Inl e, w1) \<Rightarrow> (Raised e, w1)
      | (Inr current, w1) \<Rightarrow>
          let w2 = (if current = 1 then snd (redis_expire w1 key (window_seconds lim)) else w1) in
          if current > max_requests lim
          then (HTTPError 429 (''Rate limit exceeded. Try again in ''
                  @ str_int (window_seconds lim) @ '' seconds.''), w2)
          else (Ok Allowed, w2))"

section \<open>Gateway adapters\<close>

subsection \<open>\<open>StripeService\<close> (\<open>app/services/stripe_service.py\<close>)\<close>

text \<open>\<open>construct_webhook_event\<close>: the error of the result is the text of the exception
  that leaves the method; an exception of another class passes through unchanged.\<close>

definition construct_webhook_event :: "env \<Rightarrow> string \<Rightarrow> string \<Rightarrow> string + stripe_event" where
  "construct_webhook_event env payload sig_header =
     (case stripe_construct_event env payload sig_header (stripe_webhook_secret env) of
        ConstructOk ev \<Rightarrow> Inr ev
      | ConstructValueError \<Rightarrow> Inl ''Invalid payload''
      | ConstructSignatureError \<Rightarrow> Inl ''Invalid signature''
      | ConstructOther msg \<Rightarrow> Inl msg)"

definition create_checkout_session ::
  "env \<Rightarrow> string \<Rightarrow> int \<Rightarrow> string \<Rightarrow> string \<Rightarrow> world \<Rightarrow> (string + string) \<times> world" where
  "create_checkout_session env customer_email user_id success_url cancel_url w =
     (let w1 = w\<lparr>provider_calls := Suc (provider_calls w)\<rparr> in
      case stripe_session_create env (stripe_price_id env) customer_email user_id
             success_url cancel_url of
        CreateOk url \<Rightarrow> (Inr url, w1)
      | CreateStripeError msg \<Rightarrow> (Inl (''Stripe error: '' @ msg), w1)
      | CreateOther msg \<Rightarrow> (Inl msg, w1))"

subsection \<open>\<open>RazorpayService\<close> (\<open>app/services/razorpay_service.py\<close>)\<close>

text \<open>\<open>razorpay_client\<close> is created only when both credentials are set.\<close>

definition razorpay_client :: "env \<Rightarrow> bool" where
  "razorpay_client env = (razorpay_key_id env \<noteq> [] \<and> razorpay_key_secret env \<noteq> [])"

definition create_order ::
  "env \<Rightarrow> int \<Rightarrow> int option \<Rightarrow> world \<Rightarrow> (string + string \<times> int \<times> string \<times> string) \<times> world" where
  "create_order env user_id amount w =
     (if \<not> razorpay_client env then (Inl ''Razorpay not configured'', w)
      else
        let amt = (case amount of None \<Rightarrow> razorpay_plan_amount env
                   | Some a \<Rightarrow> if a = 0 then razorpay_plan_amount env else a);
            w1 = w\<lparr>provider_calls := Suc (provider_calls w)\<rparr>
        in case razorpay_order_create env amt user_id of
             Inl msg \<Rightarrow> (Inl (''Razorpay error: '' @ msg), w1)
           | Inr ord \<Rightarrow>
               (Inr (order_id ord, order_amount ord, order_currency ord, razorpay_key_id env), w1))"

definition verify_payment_signature :: "env \<Rightarrow> string \<Rightarrow> string \<Rightarrow> string \<Rightarrow> bool" where
  "verify_payment_signature env oid pid signature =
     (if \<not> razorpay_client env then False
      else razorpay_utility_verify env oid pid signature)"

text \<open>\<open>hmac.compare_digest\<close> on two \<open>str\<close> values: both must be ASCII, or it raises
  \<open>TypeError\<close>. A character is a code point below 256 here, as in a header value.\<close>

definition is_ascii :: "string \<Rightarrow> bool" where
  "is_ascii s = list_all (\<lambda>c. (of_char c :: nat) < 128) s"

definition compare_digest :: "string \<Rightarrow> string \<Rightarrow> exn + bool" where
  "compare_digest a b = (if is_ascii a \<and> is_ascii b then Inr (a = b) else Inl TypeError)"

definition verify_webhook_signature :: "env \<Rightarrow> string \<Rightarrow> string \<Rightarrow> exn + bool" where
  "verify_webhook_signature env payload signature =
     (if razorpay_webhook_secret env = [] then Inr False
      else compare_digest (hmac_sha256_hex env (razorpay_webhook_secret env) payload) signature)"

section \<open>Billing router (\<open>app/routers/billing.py\<close>)\<close>

definition already_subscribed :: response where
  "already_subscribed = HTTPError 400 ''User already has an active subscription''"

definition success_url :: "env \<Rightarrow> string" where
  "success_url env = frontend_url env @ ''/dashboard?payment=success&gateway=stripe''"

definition cancel_url :: "env \<Rightarrow> string" where
  "cancel_url env = frontend_url env @ ''/dashboard?payment=cancelled''"

definition create_stripe_checkout :: "env \<Rightarrow> int \<Rightarrow> user \<Rightarrow> world \<Rightarrow> response \<times> world" where
  "create_stripe_checkout env uid current_user w =
     (if user_is_paid current_user then (already_subscribed, w)
      else
        case create_checkout_session env (user_email current_user) uid
               (success_url env) (cancel_url env) w of
             (Inr url, w1) \<Rightarrow> (Ok (StripeCheckout url), w1)
           | (Inl msg, w1) \<Rightarrow> (HTTPError 500 msg, w1))"

text \<open>The body of \<open>if event.type == "checkout.session.completed"\<close>.\<close>

definition stripe_apply_event :: "stripe_event \<Rightarrow> world \<Rightarrow> exn + world" where
  "stripe_apply_event ev w =
     (case ev_metadata ev ''user_id'' of
        None \<Rightarrow> Inr w
      | Some user_id \<Rightarrow>
          if user_id = [] then Inr w
          else case py_int_str user_id of
            None \<Rightarrow> Inl ValueError
          | Some n \<Rightarrow>
              (case users w n of
                 None \<Rightarrow> Inr w
               | Some u \<Rightarrow>
                   Inr (w\<lparr>users := (users w)(n \<mapsto>
                              u\<lparr>user_is_paid := True, user_stripe_customer_id := ev_customer ev\<rparr>),
                          commits := Suc (commits w)\<rparr>)))"

definition stripe_webhook :: "env \<Rightarrow> string \<Rightarrow> string \<Rightarrow> world \<Rightarrow> response \<times> world" where
  "stripe_webhook env payload stripe_signature w =
     (case construct_webhook_event env payload stripe_signature of
        Inl msg \<Rightarrow> (HTTPError 400 msg, w)
      | Inr ev \<Rightarrow>
          let event_key = ''stripe_event:'' @ ev_id ev in
          if redis_exists w event_key then (Ok (Ack ''already_processed''), w)
          else
            case (if ev_type ev = ''checkout.session.completed''
                  then stripe_apply_event ev w else Inr w) of
              Inl e \<Rightarrow> (Raised e, w)
            | Inr w1 \<Rightarrow>
                (case redis_set w1 event_key ''processed'' (Some 86400) of
                   (Inl e, w2) \<Rightarrow> (Raised e, w2)
                 | (Inr b, w2) \<Rightarrow> (Ok (Ack ''success''), w2)))"

definition create_razorpay_order :: "env \<Rightarrow> int \<Rightarrow> user \<Rightarrow> world \<Rightarrow> response \<times> world" where
  "create_razorpay_order env uid current_user w =
     (if user_is_paid current_user then (already_subscribed, w)
      else case create_order env uid None w of
             (Inr (oid, amt, cur, kid), w1) \<Rightarrow> (Ok (RazorpayOrder oid amt cur kid), w1)
           | (Inl msg, w1) \<Rightarrow> (HTTPError 500 msg, w1))"

text \<open>\<open>current_user.is_paid = True; await db.commit()\<close> for the authenticated user.\<close>

definition set_paid :: "int \<Rightarrow> world \<Rightarrow> world" where
  "set_paid uid w =
     w\<lparr>users := (case users w uid of
                   None \<Rightarrow> users w
                 | Some u \<Rightarrow> (users w)(uid \<mapsto> u\<lparr>user_is_paid := True\<rparr>)),
       commits := Suc (commits w)\<rparr>"

definition verify_razorpay_payment ::
  "env \<Rightarrow> string \<Rightarrow> string \<Rightarrow> string \<Rightarrow> int \<Rightarrow> world \<Rightarrow> response \<times> world" where
  "verify_razorpay_payment env razorpay_order_id razorpay_payment_id razorpay_signature uid w =
     (let payment_key = ''razorpay_payment:'' @ razorpay_payment_id in
      if redis_exists w payment_key then (Ok (AckPaid ''already_processed'' True), w)
      else if \<not> verify_payment_signature env razorpay_order_id razorpay_payment_id
                   razorpay_signature
      then (HTTPError 400 ''Invalid payment signature'', w)
      else
        case redis_set (set_paid uid w) payment_key ''processed'' (Some 86400) of
          (Inl e, w2) \<Rightarrow> (Raised e, w2)
        | (Inr b, w2) \<Rightarrow> (Ok (AckPaid ''success'' True), w2))"

text \<open>\<open>event.get("payload", {}).get("payment", {}).get("entity", {}).get("id")\<close>.\<close>

definition razorpay_payment_id :: "json \<Rightarrow> exn + json" where
  "razorpay_payment_id event =
     (case py_get event ''payload'' (JObj []) of
        Inl e \<Rightarrow> Inl e
      | Inr p \<Rightarrow>
          (case py_get p ''payment'' (JObj []) of
             Inl e \<Rightarrow> Inl e
           | Inr pm \<Rightarrow>
               (case py_get pm ''entity'' (JObj []) of
                  Inl e \<Rightarrow> Inl e
                | Inr en \<Rightarrow> py_get en ''id'' JNull)))"

text \<open>The body of \<open>if event_id == "payment.captured"\<close>.\<close>

definition razorpay_apply_event :: "json \<Rightarrow> world \<Rightarrow> exn + world" where
  "razorpay_apply_event event w =
     (case py_getitem event ''payload'' of
        Inl e \<Rightarrow> Inl e
      | Inr p \<Rightarrow>
     (case py_getitem p ''payment'' of
        Inl e \<Rightarrow> Inl e
      | Inr pm \<Rightarrow>
     (case py_getitem pm ''entity'' of
        Inl e \<Rightarrow> Inl e
      | Inr payment_entity \<Rightarrow>
     (case py_get payment_entity ''notes'' (JObj []) of
        Inl e \<Rightarrow> Inl e
      | Inr notes \<Rightarrow>
     (case py_get notes ''user_id'' JNull of
        Inl e \<Rightarrow> Inl e
      | Inr user_id \<Rightarrow>
          if truthy user_id then
            (case py_int user_id of
               Inl e \<Rightarrow> Inl e
             | Inr n \<Rightarrow>
                 (case users w n of
                    None \<Rightarrow> Inr w
                  | Some u \<Rightarrow>
                      Inr (w\<lparr>users := (users w)(n \<mapsto> u\<lparr>user_is_paid := True\<rparr>),
                             commits := Suc (commits w)\<rparr>)))
          else Inr w)))))"

text \<open>The text an f-string puts for a value: \<open>str\<close> of it.\<close>

definition py_str :: "env \<Rightarrow> json \<Rightarrow> string" where
  "py_str env j =
     (case j of
        JStr s \<Rightarrow> s
      | JInt n \<Rightarrow> str_int n
      | JBool b \<Rightarrow> (if b then ''True'' else ''False'')
      | JNull \<Rightarrow> ''None''
      | _ \<Rightarrow> py_format env j)"

definition razorpay_webhook :: "env \<Rightarrow> string \<Rightarrow> string \<Rightarrow> world \<Rightarrow> response \<times> world" where
  "razorpay_webhook env payload x_razorpay_signature w =
     (case verify_webhook_signature env payload x_razorpay_signature of
        Inl e \<Rightarrow> (Raised e, w)
      | Inr valid \<Rightarrow>
      if \<not> valid then (HTTPError 400 ''Invalid webhook signature'', w)
      else case json_loads env payload of
        None \<Rightarrow> (Raised JSONDecodeError, w)
      | Some event \<Rightarrow>
     (case py_get event ''event'' JNull of
        Inl e \<Rightarrow> (Raised e, w)
      | Inr event_id \<Rightarrow>
     (case razorpay_payment_id event of
        Inl e \<Rightarrow> (Raised e, w)
      | Inr payment_id \<Rightarrow>
          if truthy payment_id then
            let event_key = ''razorpay_webhook:'' @ py_str env payment_id in
            if redis_exists w event_key then (Ok (Ack ''already_processed''), w)
            else
              case (if event_id = JStr ''payment.captured''
                    then razorpay_apply_event event w else Inr w) of
                Inl e \<Rightarrow> (Raised e, w)
              | Inr w1 \<Rightarrow>
                  (case redis_set w1 event_key ''processed'' (Some 86400) of
                     (Inl e, w2) \<Rightarrow> (Raised e, w2)
                   | (Inr b, w2) \<Rightarrow> (Ok (Ack ''success''), w2))
          else (Ok (Ack ''success''), w))))"

text \<open>\<open>gateway or settings.payment_gateway\<close>.\<close>

definition selected_gateway :: "env \<Rightarrow> string option \<Rightarrow> string" where
  "selected_gateway env gateway =
     (case gateway of
        None \<Rightarrow> payment_gateway env
      | Some g \<Rightarrow> if g = [] then payment_gateway env else g)"

definition create_checkout ::
  "env \<Rightarrow> int \<Rightarrow> user \<Rightarrow> string option \<Rightarrow> world \<Rightarrow> response \<times> world" where
  "create_checkout env uid current_user gateway w =
     (if user_is_paid current_user then (already_subscribed, w)
      else if selected_gateway env gateway = ''razorpay'' then
        (case create_order env uid None w of
           (Inr (oid, amt, cur, kid), w1) \<Rightarrow> (Ok (RazorpayOrder oid amt cur kid), w1)
         | (Inl msg, w1) \<Rightarrow> (HTTPError 500 msg, w1))
      else
        case create_checkout_session env (user_email current_user) uid
               (success_url env) (cancel_url env) w of
             (Inr url, w1) \<Rightarrow> (Ok (StripeCheckout url), w1)
           | (Inl msg, w1) \<Rightarrow> (HTTPError 500 msg, w1))"

subsection \<open>The operations of the billing subsystem, as one step function\<close>

datatype request =
    StripeWebhook string string
  | RazorpayWebhook string string
  | VerifyRazorpayPayment string string string int
  | CreateStripeCheckout int user
  | CreateRazorpayOrder int user
  | CreateCheckout int user "string option"

fun handle :: "env \<Rightarrow> request \<Rightarrow> world \<Rightarrow> response \<times> world" where
  "handle env (StripeWebhook p s) w = stripe_webhook env p s w"
| "handle env (RazorpayWebhook p s) w = razorpay_webhook env p s w"
| "handle env (VerifyRazorpayPayment oid pid sg uid) w = verify_razorpay_payment env oid pid sg uid w"
| "handle env (CreateStripeCheckout uid u) w = create_stripe_checkout env uid u w"
| "handle env (CreateRazorpayOrder uid u) w = create_razorpay_order env uid u w"
| "handle env (CreateCheckout uid u g) w = create_checkout env uid u g w"

text \<open>Whether the request carries a payment event or confirmation whose signature
  verifies.\<close>

fun verified_payment :: "env \<Rightarrow> request \<Rightarrow> bool" where
  "verified_payment env (StripeWebhook p s) =
     (case construct_webhook_event env p s of
        Inl msg \<Rightarrow> False
      | Inr ev \<Rightarrow> ev_type ev = ''checkout.session.completed'')"
| "verified_payment env (RazorpayWebhook p s) =
     (verify_webhook_signature env p s = Inr True \<and>
      (case json_loads env p of
         None \<Rightarrow> False
       | Some event \<Rightarrow> py_get event ''event'' JNull = Inr (JStr ''payment.captured'')))"
| "verified_payment env (VerifyRazorpayPayment oid pid sg uid) =
     verify_payment_signature env oid pid sg"
| "verified_payment env r = False"

section \<open>A concrete configuration and concrete requests\<close>

text \<open>
  One environment in which the signature \<open>''good''\<close> verifies and every other one does
  not, with a handful of payloads, and one ledger with the unpaid user 1 and the paid
  user 2. The properties below are run on them.
\<close>

definition demo_session :: "string \<Rightarrow> string \<Rightarrow> stripe_event" where
  "demo_session eid uid_text =
     \<lparr>ev_id = eid, ev_type = ''checkout.session.completed'',
      ev_metadata = [''user_id'' \<mapsto> uid_text], ev_customer = Some ''cus_1''\<rparr>"

definition demo_ping :: stripe_event where
  "demo_ping =
     \<lparr>ev_id = ''evt_3'', ev_type = ''customer.created'',
      ev_metadata = Map.empty, ev_customer = None\<rparr>"

definition demo_construct :: "string \<Rightarrow> string \<Rightarrow> string \<Rightarrow> construct_result" where
  "demo_construct payload sig_header secret =
     (if sig_header \<noteq> ''good'' then ConstructSignatureError
      else if payload = ''paid1'' then ConstructOk (demo_session ''evt_1'' ''1'')
      else if payload = ''paid1_again'' then ConstructOk (demo_session ''evt_1'' ''1'')
      else if payload = ''bad_uid'' then ConstructOk (demo_session ''evt_2'' ''abc'')
      else if payload = ''ping'' then
        ConstructOk demo_ping
      else ConstructValueError)"

definition demo_captured :: "string \<Rightarrow> json \<Rightarrow> json" where
  "demo_captured pid notes =
     JObj [(''event'', JStr ''payment.captured''),
           (''payload'', JObj [(''payment'', JObj [(''entity'',
              JObj [(''id'', JStr pid), (''notes'', notes)])])])]"

definition demo_no_payment :: json where
  "demo_no_payment = JObj [(''event'', JStr ''invoice.paid''), (''payload'', JObj [])]"

definition demo_authorized :: json where
  "demo_authorized =
     JObj [(''event'', JStr ''payment.authorized''),
           (''payload'', JObj [(''payment'', JObj [(''entity'',
              JObj [(''id'', JStr ''pay_4'')])])])]"

definition demo_loads :: "string \<Rightarrow> json option" where
  "demo_loads payload =
     (if payload = ''captured1'' then
        Some (demo_captured ''pay_1'' (JObj [(''user_id'', JStr ''1'')]))
      else if payload = ''captured1_again'' then
        Some (demo_captured ''pay_1'' (JObj [(''user_id'', JStr ''1'')]))
      else if payload = ''captured_bad_uid'' then
        Some (demo_captured ''pay_2'' (JObj [(''user_id'', JStr ''abc'')]))
      else if payload = ''captured_no_notes'' then
        Some (demo_captured ''pay_3'' (JList []))
      else if payload = ''no_payment'' then
        Some demo_no_payment
      else if payload = ''authorized'' then
        Some demo_authorized
      else None)"

definition demo_env :: env where
  "demo_env =
     \<lparr>payment_gateway = ''stripe'',
      frontend_url = ''http://localhost:5173'',
      stripe_webhook_secret = ''whsec'',
      stripe_price_id = ''price_1'',
      razorpay_key_id = ''rzp_key'',
      razorpay_key_secret = ''rzp_secret'',
      razorpay_webhook_secret = ''rzp_whsec'',
      razorpay_plan_amount = 49900,
      stripe_construct_event = demo_construct,
      stripe_session_create =
        (\<lambda>price mail uid ok_url cancel_url.
           if mail = ''a@example.com'' then CreateStripeError ''No such price: price_1''
           else CreateOther ''Connection refused''),
      razorpay_order_create = (\<lambda>amt uid. Inl ''Authentication failed''),
      razorpay_utility_verify = (\<lambda>oid pid sg. sg = ''good''),
      hmac_sha256_hex = (\<lambda>key msg. ''good''),
      json_loads = demo_loads,
      py_format = (\<lambda>j. ''[]'')\<rparr>"

definition demo_unpaid :: user where
  "demo_unpaid =
     \<lparr>user_email = ''a@example.com'', user_is_paid = False, user_stripe_customer_id = None\<rparr>"

definition demo_paid :: user where
  "demo_paid =
     \<lparr>user_email = ''b@example.com'', user_is_paid = True, user_stripe_customer_id = None\<rparr>"

definition demo_world :: world where
  "demo_world =
     \<lparr>users = [1 \<mapsto> demo_unpaid, 2 \<mapsto> demo_paid], commits = 0, connected = True,
      kv = Map.empty, clock = 0, provider_calls = 0\<rparr>"

definition demo_guest :: user where
  "demo_guest =
     \<lparr>user_email = ''c@example.com'', user_is_paid = False, user_stripe_customer_id = None\<rparr>"

definition demo_offline :: world where
  "demo_offline = demo_world\<lparr>connected := False\<rparr>"

definition demo_recorded :: world where
  "demo_recorded =
     demo_world\<lparr>kv := [''razorpay_payment:pay_1'' \<mapsto> (Marker ''processed'', Some 86400)]\<rparr>"

text \<open>The worlds after a first Stripe webhook, a first Razorpay webhook and a first
  verify-payment call on \<open>demo_world\<close>.\<close>

definition demo_after_stripe :: world where
  "demo_after_stripe = snd (stripe_webhook demo_env ''paid1'' ''good'' demo_world)"

definition demo_after_razorpay :: world where
  "demo_after_razorpay = snd (razorpay_webhook demo_env ''captured1'' ''good'' demo_world)"

definition demo_after_verify :: world where
  "demo_after_verify =
     snd (verify_razorpay_payment demo_env ''order_1'' ''pay_1'' ''good'' 1 demo_world)"

subsection \<open>A run of requests against the rate limiter\<close>

text \<open>The rejection raised by \<open>check_rate_limit\<close>.\<close>

definition too_many :: "rate_limiter \<Rightarrow> response" where
  "too_many lim =
     HTTPError 429 (''Rate limit exceeded. Try again in ''
        @ str_int (window_seconds lim) @ '' seconds.'')"

text \<open>Requests of one client to one endpoint, each arriving the given number of seconds
  after the one before it; the answers are collected in order.\<close>

fun run_requests ::
  "rate_limiter \<Rightarrow> string option \<Rightarrow> string \<Rightarrow> int list \<Rightarrow> world \<Rightarrow> response list \<times> world" where
  "run_requests lim client path [] w = ([], w)"
| "run_requests lim client path (d # ds) w =
     (case check_rate_limit lim client path (advance d w) of
        (r, w1) \<Rightarrow>
          (case run_requests lim client path ds w1 of
             (rs, w2) \<Rightarrow> (r # rs, w2)))"

text \<open>What a counter that stands at \<open>n\<close> answers to the next requests.\<close>

fun verdicts :: "rate_limiter \<Rightarrow> int \<Rightarrow> int list \<Rightarrow> response list" where
  "verdicts lim n [] = []"
| "verdicts lim n (d # ds) =
     (if n + 1 > max_requests lim then too_many lim else Ok Allowed) # verdicts lim (n + 1) ds"

text \<open>The store after \<open>INCR\<close> of the login counter of an unknown client, and after the
  whole first request.\<close>

definition demo_counted :: world where
  "demo_counted =
     demo_world\<lparr>kv := [''ratelimit:/auth/login:unknown'' \<mapsto> (Counter 1, None)]\<rparr>"

definition demo_first_request :: world where
  "demo_first_request =
     demo_world\<lparr>kv := [''ratelimit:/auth/login:unknown'' \<mapsto> (Counter 1, Some 60)]\<rparr>"

subsection \<open>What may happen between two deliveries\<close>

text \<open>Any request to the billing router, any rate-limit check, or the passing of some
  seconds.\<close>

datatype event =
    Request request
  | RateCheck rate_limiter "string option" string
  | Tick nat

fun step :: "env \<Rightarrow> event \<Rightarrow> world \<Rightarrow> world" where
  "step env (Request req) w = snd (handle env req w)"
| "step env (RateCheck lim client path) w = snd (check_rate_limit lim client path w)"
| "step env (Tick d) w = advance (int d) w"

fun run :: "env \<Rightarrow> event list \<Rightarrow> world \<Rightarrow> world" where
  "run env [] w = w"
| "run env (ev # evs) w = run env evs (step env ev w)"

fun elapsed :: "event list \<Rightarrow> int" where
  "elapsed [] = 0"
| "elapsed (Tick d # evs) = int d + elapsed evs"
| "elapsed (ev # evs) = elapsed evs"

text \<open>The marker \<open>v\<close> is stored under \<open>k\<close> in a connected store and expires at \<open>e\<close>,
  which has not come yet.\<close>

definition held :: "world \<Rightarrow> string \<Rightarrow> string \<Rightarrow> int \<Rightarrow> bool" where
  "held w k v e = (connected w \<and> kv w k = Some (Marker v, Some e) \<and> clock w < e)"

text \<open>Some traffic between two deliveries: an hour passes, an unpaid user asks for a
  checkout, a login is rate-checked, another Stripe event arrives, a minute passes.\<close>

definition demo_between :: "event list" where
  "demo_between =
     [Tick 3600, Request (CreateCheckout 1 demo_unpaid None),
      RateCheck auth_rate_limiter None ''/auth/login'',
      Request (StripeWebhook ''ping'' ''good''), Tick 60]"

section \<open>Properties\<close>

lemmas demo_defs =
  demo_env_def demo_construct_def demo_session_def demo_ping_def demo_captured_def
  demo_no_payment_def demo_authorized_def demo_loads_def
  demo_unpaid_def demo_paid_def demo_guest_def demo_world_def demo_offline_def demo_recorded_def

lemmas redis_defs =
  redis_get_def redis_set_def redis_exists_def redis_incr_def redis_expire_def live_def
  advance_def

lemmas int_defs = py_int_str_def strip_def is_space_def is_digit_def digit_val_def

subsection \<open>Rejected webhooks\<close>

lemma signature_failure_outcomes:
  "(construct_webhook_event env payload sg = Inl msg \<longrightarrow>
      stripe_webhook env payload sg w = (HTTPError 400 msg, w)) \<and>
   (verify_webhook_signature env payload sg = Inr False \<longrightarrow>
      razorpay_webhook env payload sg w = (HTTPError 400 ''Invalid webhook signature'', w)) \<and>
   (verify_webhook_signature env payload sg = Inl e \<longrightarrow>
      razorpay_webhook env payload sg w = (Raised e, w))"
  by (simp add: stripe_webhook_def razorpay_webhook_def)

text \<open>
  Claim C1. Both handlers mean to answer a webhook whose signature does not verify with
  HTTP 400: the Stripe handler catches every exception of \<open>construct_webhook_event\<close>, and
  the Razorpay handler raises 400 when \<open>verify_webhook_signature\<close> returns false. But
  \<open>hmac.compare_digest\<close> raises \<open>TypeError\<close> on a signature that is not ASCII and the
  Razorpay handler does not catch it. With the header \<open>X-Razorpay-Signature\<close> set to the
  one character U+00E9 the request ends in that \<open>TypeError\<close>, which is status 500 and
  not 400, while the Stripe handler answers 400 to the same signature. The world is
  unchanged in both.
\<close>

theorem non_ascii_signature_raises:
  "verify_webhook_signature demo_env ''captured1'' [CHR 0xE9] = Inl TypeError
   \<and> razorpay_webhook demo_env ''captured1'' [CHR 0xE9] demo_world
       = (Raised TypeError, demo_world)
   \<and> status_code (Raised TypeError) = 500
   \<and> stripe_webhook demo_env ''paid1'' [CHR 0xE9] demo_world
       = (HTTPError 400 ''Invalid signature'', demo_world)"
  by (simp add: razorpay_webhook_def stripe_webhook_def verify_webhook_signature_def compare_digest_def is_ascii_def
        compare_digest_def is_ascii_def construct_webhook_event_def demo_env_def
        demo_construct_def)

subsection \<open>Checkout of a paid user\<close>

text \<open>
  Claim C7. For a user whose \<open>is_paid\<close> is true, the unified checkout (whatever gateway
  is requested or configured) and both per-gateway endpoints answer HTTP 400 "already
  subscribed" and leave the world as it was: in particular \<open>provider_calls\<close> is not
  increased, so no provider was called.
\<close>

theorem paid_user_checkout_rejected:
  assumes "user_is_paid current_user"
  shows "create_checkout env uid current_user gateway w
           = (HTTPError 400 ''User already has an active subscription'', w)
       \<and> create_stripe_checkout env uid current_user w
           = (HTTPError 400 ''User already has an active subscription'', w)
       \<and> create_razorpay_order env uid current_user w
           = (HTTPError 400 ''User already has an active subscription'', w)"
  using assms
  by (simp add: create_checkout_def create_stripe_checkout_def create_razorpay_order_def
        already_subscribed_def Let_def)

theorem paid_user_checkout_rejected_witness:
  "user_is_paid demo_paid \<and>
   create_checkout demo_env 2 demo_paid (Some ''razorpay'') demo_world
     = (HTTPError 400 ''User already has an active subscription'', demo_world) \<and>
   create_stripe_checkout demo_env 2 demo_paid demo_world
     = (HTTPError 400 ''User already has an active subscription'', demo_world) \<and>
   create_razorpay_order demo_env 2 demo_paid demo_world
     = (HTTPError 400 ''User already has an active subscription'', demo_world)"
  using paid_user_checkout_rejected [of demo_paid demo_env 2 "Some ''razorpay''" demo_world]
  by (simp add: demo_paid_def)

subsection \<open>Idempotency before verification\<close>

text \<open>
  Claim C9. In \<open>verify_razorpay_payment\<close> the idempotency lookup comes first: when the
  key of the payment id is present, the answer is \<open>already_processed\<close> with
  \<open>is_paid = True\<close> and the world is unchanged, for every order id, signature and
  environment. The signature check plays no part, so an invalid signature is accepted.
\<close>

theorem verify_payment_idempotency_first:
  assumes "redis_exists w (''razorpay_payment:'' @ pid)"
  shows "verify_razorpay_payment env oid pid sg uid w
           = (Ok (AckPaid ''already_processed'' True), w)"
  using assms by (simp add: verify_razorpay_payment_def)

theorem verify_payment_idempotency_first_witness:
  "redis_exists demo_recorded (''razorpay_payment:'' @ ''pay_1'') \<and>
   \<not> verify_payment_signature demo_env ''order_1'' ''pay_1'' ''forged'' \<and>
   verify_razorpay_payment demo_env ''order_1'' ''pay_1'' ''forged'' 1 demo_recorded
     = (Ok (AckPaid ''already_processed'' True), demo_recorded)"
proof -
  have h: "redis_exists demo_recorded (''razorpay_payment:'' @ ''pay_1'')"
    by (simp add: redis_exists_def live_def demo_recorded_def demo_world_def)
  have "\<not> verify_payment_signature demo_env ''order_1'' ''pay_1'' ''forged''"
    by (simp add: verify_payment_signature_def demo_env_def)
  with h verify_payment_idempotency_first [OF h, of demo_env "''order_1''" "''forged''" 1]
  show ?thesis by simp
qed

subsection \<open>Redis not connected\<close>

lemma check_rate_limit_offline:
  "\<not> connected w \<Longrightarrow> 0 \<le> max_requests lim \<Longrightarrow>
     check_rate_limit lim client path w = (Ok Allowed, w)"
  by (simp add: check_rate_limit_def redis_incr_def)

lemma stripe_webhook_offline:
  "\<not> connected w \<Longrightarrow>
     fst (stripe_webhook env payload sg w) \<noteq> Ok (Ack ''already_processed'')"
  by (auto simp add: stripe_webhook_def redis_exists_def redis_set_def Let_def
        split: sum.splits prod.splits)

lemma razorpay_webhook_offline:
  "\<not> connected w \<Longrightarrow>
     fst (razorpay_webhook env payload sg w) \<noteq> Ok (Ack ''already_processed'')"
  by (auto simp add: razorpay_webhook_def redis_exists_def redis_set_def Let_def
        split: sum.splits prod.splits option.splits)

lemma verify_payment_offline:
  "\<not> connected w \<Longrightarrow>
     fst (verify_razorpay_payment env oid pid sg uid w)
       \<noteq> Ok (AckPaid ''already_processed'' True)"
  by (auto simp add: verify_razorpay_payment_def redis_exists_def redis_set_def Let_def
        split: sum.splits prod.splits)

text \<open>
  Claim C10. With no Redis client (\<open>connected\<close> false) every \<open>RedisService\<close> operation
  returns its default and changes nothing: \<open>get\<close> gives \<open>None\<close>, \<open>set\<close> false,
  \<open>exists\<close> false, \<open>incr\<close> 0 and \<open>expire\<close> false. So \<open>check_rate_limit\<close> lets every
  request through, for any ceiling that is not negative and so for the configured limiter
  of 5 per 60 seconds, and no webhook or verify-payment call takes the
  \<open>already_processed\<close> path.
\<close>

theorem redis_offline_fails_open:
  assumes "\<not> connected w"
  shows "redis_get w k = None
       \<and> redis_set w k v ttl = (Inr False, w)
       \<and> redis_exists w k = False
       \<and> redis_incr w k = (Inr 0, w)
       \<and> redis_expire w k t = (False, w)
       \<and> (0 \<le> max_requests lim \<longrightarrow> check_rate_limit lim client path w = (Ok Allowed, w))
       \<and> check_rate_limit auth_rate_limiter client path w = (Ok Allowed, w)
       \<and> fst (stripe_webhook env payload sg w) \<noteq> Ok (Ack ''already_processed'')
       \<and> fst (razorpay_webhook env payload sg w) \<noteq> Ok (Ack ''already_processed'')
       \<and> fst (verify_razorpay_payment env oid pid sg uid w)
            \<noteq> Ok (AckPaid ''already_processed'' True)"
  using assms check_rate_limit_offline [of w lim client path]
    check_rate_limit_offline [of w auth_rate_limiter client path]
    stripe_webhook_offline [of w env payload sg] razorpay_webhook_offline [of w env payload sg]
    verify_payment_offline [of w env oid pid sg uid]
  by (simp add: redis_get_def redis_set_def redis_exists_def redis_incr_def redis_expire_def
        auth_rate_limiter_def)

theorem redis_offline_fails_open_witness:
  "\<not> connected demo_offline
   \<and> redis_get demo_offline ''stripe_event:evt_1'' = None
   \<and> redis_set demo_offline ''stripe_event:evt_1'' ''processed'' (Some 86400)
        = (Inr False, demo_offline)
   \<and> redis_exists demo_offline ''stripe_event:evt_1'' = False
   \<and> redis_incr demo_offline ''ratelimit:/auth/login:unknown'' = (Inr 0, demo_offline)
   \<and> redis_expire demo_offline ''ratelimit:/auth/login:unknown'' 60 = (False, demo_offline)
   \<and> 0 \<le> max_requests auth_rate_limiter
   \<and> check_rate_limit auth_rate_limiter None ''/auth/login'' demo_offline
        = (Ok Allowed, demo_offline)
   \<and> fst (stripe_webhook demo_env ''paid1'' ''good'' demo_offline)
        \<noteq> Ok (Ack ''already_processed'')"
proof -
  have h: "\<not> connected demo_offline" by (simp add: demo_offline_def)
  have m: "0 \<le> max_requests auth_rate_limiter" by (simp add: auth_rate_limiter_def)
  from redis_offline_fails_open [OF h, of "''stripe_event:evt_1''" "''processed''"
         "Some 86400" 60 auth_rate_limiter None "''/auth/login''" demo_env "''paid1''" "''good''"]
       redis_offline_fails_open [OF h, of "''ratelimit:/auth/login:unknown''" "''processed''"
         "Some 86400" 60 auth_rate_limiter None "''/auth/login''" demo_env "''paid1''" "''good''"]
       h m
  show ?thesis by simp
qed

subsection \<open>A user-id reference that is no number\<close>

text \<open>
  Claim C4. The handlers skip a missing user id (\<open>if user_id:\<close>) and an unknown user
  (\<open>if user:\<close>), but \<open>int(user_id)\<close> is not guarded. A verified
  \<open>checkout.session.completed\<close> event whose metadata has \<open>user_id = "abc"\<close>, and a
  verified \<open>payment.captured\<close> event whose notes have \<open>user_id = "abc"\<close>, end in a
  \<open>ValueError\<close> that nothing catches, which is status 500 and not an acknowledgment; no
  idempotency key is written. A Razorpay payment whose \<open>notes\<close> is the empty list ends
  in an \<open>AttributeError\<close> the same way.
\<close>

theorem non_numeric_user_id_raises:
  "stripe_webhook demo_env ''bad_uid'' ''good'' demo_world = (Raised ValueError, demo_world)
   \<and> razorpay_webhook demo_env ''captured_bad_uid'' ''good'' demo_world
       = (Raised ValueError, demo_world)
   \<and> razorpay_webhook demo_env ''captured_no_notes'' ''good'' demo_world
       = (Raised AttributeError, demo_world)
   \<and> status_code (Raised ValueError) = 500"
  by (simp add: stripe_webhook_def razorpay_webhook_def construct_webhook_event_def
        verify_webhook_signature_def compare_digest_def is_ascii_def
        stripe_apply_event_def razorpay_apply_event_def
        razorpay_payment_id_def py_str_def demo_defs redis_defs int_defs)

subsection \<open>Provider errors during checkout creation\<close>

lemma stripe_adapter_error:
  "create_checkout_session env mail uid su cu w =
     ((case stripe_session_create env (stripe_price_id env) mail uid su cu of
         CreateOk url \<Rightarrow> Inr url
       | CreateStripeError raw \<Rightarrow> Inl (''Stripe error: '' @ raw)
       | CreateOther raw \<Rightarrow> Inl raw),
      w\<lparr>provider_calls := Suc (provider_calls w)\<rparr>)"
  by (simp add: create_checkout_session_def Let_def split: create_result.splits)

lemma razorpay_adapter_error:
  "razorpay_client env \<Longrightarrow> razorpay_order_create env (razorpay_plan_amount env) uid = Inl raw \<Longrightarrow>
     create_order env uid None w =
       (Inl (''Razorpay error: '' @ raw), w\<lparr>provider_calls := Suc (provider_calls w)\<rparr>)"
  by (simp add: create_order_def Let_def)

text \<open>
  Claim C8, as stated, fails: the text of the upstream exception reaches the client. A
  \<open>StripeError\<close> with the text \<open>No such price: price_1\<close> comes back as the detail
  \<open>Stripe error: No such price: price_1\<close>, and an exception of another class raised by
  the Stripe call passes \<open>StripeService\<close> and is returned by the router as it is.
\<close>

theorem upstream_text_exposed_counterexample:
  "stripe_session_create demo_env (stripe_price_id demo_env) (user_email demo_unpaid) 1
      (success_url demo_env) (cancel_url demo_env) = CreateStripeError ''No such price: price_1''
   \<and> fst (create_stripe_checkout demo_env 1 demo_unpaid demo_world)
       = HTTPError 500 (''Stripe error: '' @ ''No such price: price_1'')
   \<and> stripe_session_create demo_env (stripe_price_id demo_env) (user_email demo_guest) 3
      (success_url demo_env) (cancel_url demo_env) = CreateOther ''Connection refused''
   \<and> fst (create_stripe_checkout demo_env 3 demo_guest demo_world)
       = HTTPError 500 ''Connection refused''"
  by (simp add: create_stripe_checkout_def stripe_adapter_error demo_defs)

text \<open>
  Claim C8, amended. For an unpaid user every error raised by the provider call during
  checkout creation is answered with HTTP 500, and the detail carries the text of the
  upstream exception: after \<open>Stripe error: \<close> for a \<open>StripeError\<close>, unchanged for any
  other exception of the Stripe call, and after \<open>Razorpay error: \<close> for an exception of
  the Razorpay client. This holds for the per-gateway endpoints and for the unified one
  with the gateway it selects.
\<close>

theorem provider_errors_surface_as_500:
  assumes "\<not> user_is_paid cu"
  shows "(stripe_session_create env (stripe_price_id env) (user_email cu) uid
            (success_url env) (cancel_url env) = CreateStripeError raw \<longrightarrow>
            fst (create_stripe_checkout env uid cu w) = HTTPError 500 (''Stripe error: '' @ raw)
          \<and> (selected_gateway env gateway \<noteq> ''razorpay'' \<longrightarrow>
               fst (create_checkout env uid cu gateway w)
                 = HTTPError 500 (''Stripe error: '' @ raw)))
       \<and> (stripe_session_create env (stripe_price_id env) (user_email cu) uid
            (success_url env) (cancel_url env) = CreateOther raw \<longrightarrow>
            fst (create_stripe_checkout env uid cu w) = HTTPError 500 raw
          \<and> (selected_gateway env gateway \<noteq> ''razorpay'' \<longrightarrow>
               fst (create_checkout env uid cu gateway w) = HTTPError 500 raw))
       \<and> (razorpay_client env \<and> razorpay_order_create env (razorpay_plan_amount env) uid = Inl raw \<longrightarrow>
            fst (create_razorpay_order env uid cu w) = HTTPError 500 (''Razorpay error: '' @ raw)
          \<and> (selected_gateway env gateway = ''razorpay'' \<longrightarrow>
               fst (create_checkout env uid cu gateway w)
                 = HTTPError 500 (''Razorpay error: '' @ raw)))"
  using assms
  by (auto simp add: create_stripe_checkout_def create_checkout_def create_razorpay_order_def
        stripe_adapter_error razorpay_adapter_error)

theorem provider_errors_surface_as_500_witness:
  "\<not> user_is_paid demo_unpaid \<and> \<not> user_is_paid demo_guest
   \<and> stripe_session_create demo_env (stripe_price_id demo_env) (user_email demo_unpaid) 1
        (success_url demo_env) (cancel_url demo_env) = CreateStripeError ''No such price: price_1''
   \<and> selected_gateway demo_env None \<noteq> ''razorpay''
   \<and> fst (create_stripe_checkout demo_env 1 demo_unpaid demo_world)
        = HTTPError 500 ''Stripe error: No such price: price_1''
   \<and> fst (create_checkout demo_env 1 demo_unpaid None demo_world)
        = HTTPError 500 ''Stripe error: No such price: price_1''
   \<and> stripe_session_create demo_env (stripe_price_id demo_env) (user_email demo_guest) 3
        (success_url demo_env) (cancel_url demo_env) = CreateOther ''Connection refused''
   \<and> fst (create_stripe_checkout demo_env 3 demo_guest demo_world)
        = HTTPError 500 ''Connection refused''
   \<and> fst (create_checkout demo_env 3 demo_guest None demo_world)
        = HTTPError 500 ''Connection refused''
   \<and> razorpay_client demo_env
   \<and> razorpay_order_create demo_env (razorpay_plan_amount demo_env) 1 = Inl ''Authentication failed''
   \<and> selected_gateway demo_env (Some ''razorpay'') = ''razorpay''
   \<and> fst (create_razorpay_order demo_env 1 demo_unpaid demo_world)
        = HTTPError 500 ''Razorpay error: Authentication failed''
   \<and> fst (create_checkout demo_env 1 demo_unpaid (Some ''razorpay'') demo_world)
        = HTTPError 500 ''Razorpay error: Authentication failed''"
proof -
  have u: "\<not> user_is_paid demo_unpaid" and g: "\<not> user_is_paid demo_guest"
    by (simp_all add: demo_unpaid_def demo_guest_def)
  have a: "stripe_session_create demo_env (stripe_price_id demo_env) (user_email demo_unpaid) 1
        (success_url demo_env) (cancel_url demo_env) = CreateStripeError ''No such price: price_1''"
    by (simp add: demo_env_def demo_unpaid_def)
  have b: "stripe_session_create demo_env (stripe_price_id demo_env) (user_email demo_guest) 3
        (success_url demo_env) (cancel_url demo_env) = CreateOther ''Connection refused''"
    by (simp add: demo_env_def demo_guest_def)
  have c: "razorpay_client demo_env"
    "razorpay_order_create demo_env (razorpay_plan_amount demo_env) 1 = Inl ''Authentication failed''"
    by (simp_all add: demo_env_def razorpay_client_def)
  have s: "selected_gateway demo_env None \<noteq> ''razorpay''"
    "selected_gateway demo_env (Some ''razorpay'') = ''razorpay''"
    by (simp_all add: selected_gateway_def demo_env_def)
  from provider_errors_surface_as_500 [OF u, of demo_env 1 "''No such price: price_1''" demo_world None]
       provider_errors_surface_as_500 [OF g, of demo_env 3 "''Connection refused''" demo_world None]
       provider_errors_surface_as_500 [OF u, of demo_env 1 "''Authentication failed''" demo_world "Some ''razorpay''"]
       u g a b c s
  show ?thesis by simp
qed

subsection \<open>Idempotency keys\<close>

lemma stripe_apply_event_frame:
  "stripe_apply_event ev w = Inr w1 \<Longrightarrow>
     clock w1 = clock w \<and> connected w1 = connected w \<and> kv w1 = kv w
     \<and> provider_calls w1 = provider_calls w"
  by (auto simp add: stripe_apply_event_def split: option.splits if_splits)

lemma razorpay_apply_event_frame:
  "razorpay_apply_event event w = Inr w1 \<Longrightarrow>
     clock w1 = clock w \<and> connected w1 = connected w \<and> kv w1 = kv w
     \<and> provider_calls w1 = provider_calls w"
  by (auto simp add: razorpay_apply_event_def split: option.splits if_splits sum.splits)

lemma redis_set_connected:
  "connected w \<Longrightarrow>
     redis_set w k v (Some 86400)
       = (Inr True, w\<lparr>kv := (kv w)(k \<mapsto> (Marker v, Some (clock w + 86400)))\<rparr>)"
  by (simp add: redis_set_def)

lemma stripe_webhook_success:
  assumes "connected w" "construct_webhook_event env p s = Inr ev"
    and "stripe_webhook env p s w = (Ok (Ack ''success''), w1)"
  shows "kv w1 (''stripe_event:'' @ ev_id ev) = Some (Marker ''processed'', Some (clock w + 86400))
       \<and> clock w1 = clock w \<and> connected w1"
proof (cases "ev_type ev = ''checkout.session.completed''")
  case True
  with assms show ?thesis
    by (auto simp add: stripe_webhook_def redis_set_connected Let_def
          dest!: stripe_apply_event_frame split: if_splits sum.splits)
next
  case False
  with assms show ?thesis
    by (auto simp add: stripe_webhook_def redis_set_connected Let_def split: if_splits)
qed

lemma payment_id_has_event:
  "razorpay_payment_id event = Inr pid \<Longrightarrow> \<exists>x. py_get event ''event'' JNull = Inr x"
  by (cases event) (auto simp add: razorpay_payment_id_def split: option.splits)

lemma razorpay_webhook_success:
  assumes "connected w" "verify_webhook_signature env p s = Inr True"
    and "json_loads env p = Some event"
    and "razorpay_payment_id event = Inr pid" "truthy pid"
    and "razorpay_webhook env p s w = (Ok (Ack ''success''), w1)"
  shows "kv w1 (''razorpay_webhook:'' @ py_str env pid)
           = Some (Marker ''processed'', Some (clock w + 86400))
       \<and> clock w1 = clock w \<and> connected w1"
proof -
  obtain x where x: "py_get event ''event'' JNull = Inr x"
    using payment_id_has_event [OF assms(4)] by blast
  show ?thesis
  proof (cases "x = JStr ''payment.captured''")
    case True
    with assms x show ?thesis
      by (auto simp add: razorpay_webhook_def redis_set_connected Let_def
            dest!: razorpay_apply_event_frame split: if_splits sum.splits)
  next
    case False
    with assms x show ?thesis
      by (auto simp add: razorpay_webhook_def redis_set_connected Let_def split: if_splits)
  qed
qed

lemma verify_payment_success:
  assumes "connected w"
    and "verify_razorpay_payment env oid pid sg uid w = (Ok (AckPaid ''success'' True), w1)"
  shows "kv w1 (''razorpay_payment:'' @ pid) = Some (Marker ''processed'', Some (clock w + 86400))
       \<and> clock w1 = clock w \<and> connected w1"
  using assms
  by (auto simp add: verify_razorpay_payment_def redis_set_def set_paid_def Let_def
        split: if_splits)

lemma stripe_webhook_seen:
  "construct_webhook_event env p s = Inr ev \<Longrightarrow> redis_exists w (''stripe_event:'' @ ev_id ev) \<Longrightarrow>
     stripe_webhook env p s w = (Ok (Ack ''already_processed''), w)"
  by (simp add: stripe_webhook_def)

lemma razorpay_webhook_seen:
  "verify_webhook_signature env p s = Inr True \<Longrightarrow> json_loads env p = Some event \<Longrightarrow>
   razorpay_payment_id event = Inr pid \<Longrightarrow> truthy pid \<Longrightarrow>
   redis_exists w (''razorpay_webhook:'' @ py_str env pid) \<Longrightarrow>
     razorpay_webhook env p s w = (Ok (Ack ''already_processed''), w)"
  using payment_id_has_event [of event pid]
  by (auto simp add: razorpay_webhook_def)

text \<open>A recorded key stays in the store until it expires: no operation removes or
  overwrites it.\<close>

lemma held_other_key:
  "held w k v e \<Longrightarrow> \<not> redis_exists w k' \<Longrightarrow> k' \<noteq> k"
  by (auto simp add: held_def redis_exists_def live_def)

lemma held_write_other:
  "held w k v e \<Longrightarrow> k' \<noteq> k \<Longrightarrow> held (w\<lparr>kv := (kv w)(k' \<mapsto> x)\<rparr>) k v e"
  by (simp add: held_def)

lemma held_frame:
  "connected w1 = connected w \<Longrightarrow> kv w1 = kv w \<Longrightarrow> clock w1 = clock w \<Longrightarrow>
     held w1 k v e = held w k v e"
  by (simp add: held_def)

lemma exists_frame:
  "connected w1 = connected w \<Longrightarrow> kv w1 = kv w \<Longrightarrow> clock w1 = clock w \<Longrightarrow>
     redis_exists w1 k = redis_exists w k"
  by (auto simp add: redis_exists_def live_def split: option.splits)

lemma record_held:
  assumes "held w1 k v e" "\<not> redis_exists w1 k'"
  shows "redis_set w1 k' x (Some 86400)
           = (Inr True, w1\<lparr>kv := (kv w1)(k' \<mapsto> (Marker x, Some (clock w1 + 86400)))\<rparr>)
       \<and> held (w1\<lparr>kv := (kv w1)(k' \<mapsto> (Marker x, Some (clock w1 + 86400)))\<rparr>) k v e"
  using assms held_other_key [OF assms] held_write_other [of w1 k v e k']
  by (simp add: redis_set_connected held_def)

lemma stripe_webhook_held:
  assumes "held w k v e" "stripe_webhook env p s w = (r, w')"
  shows "held w' k v e \<and> clock w' = clock w"
proof (cases "construct_webhook_event env p s")
  case (Inl msg)
  with assms show ?thesis by (simp add: stripe_webhook_def)
next
  case (Inr ev)
  let ?key = "''stripe_event:'' @ ev_id ev"
  show ?thesis
  proof (cases "redis_exists w ?key")
    case True
    with Inr assms show ?thesis by (simp add: stripe_webhook_def)
  next
    case False
    let ?a = "if ev_type ev = ''checkout.session.completed''
              then stripe_apply_event ev w else Inr w"
    show ?thesis
    proof (cases ?a)
      case (Inl x)
      with Inr False assms show ?thesis by (simp add: stripe_webhook_def)
    next
      case a: (Inr w1)
      then have fr: "connected w1 = connected w" "kv w1 = kv w" "clock w1 = clock w"
        using stripe_apply_event_frame [of ev w w1] by (auto split: if_splits)
      have h1: "held w1 k v e" using assms(1) held_frame [OF fr] by simp
      have n1: "\<not> redis_exists w1 ?key" using False exists_frame [OF fr] by simp
      from record_held [OF h1 n1, of "''processed''"] Inr False a assms(2) fr
      show ?thesis by (auto simp add: stripe_webhook_def)
    qed
  qed
qed

lemma razorpay_webhook_held:
  assumes "held w k v e" "razorpay_webhook env p s w = (r, w')"
  shows "held w' k v e \<and> clock w' = clock w"
proof (cases "verify_webhook_signature env p s = Inr True")
  case False
  with assms show ?thesis
    by (auto simp add: razorpay_webhook_def split: sum.splits if_splits)
next
  case sig: True
  show ?thesis
  proof (cases "json_loads env p")
    case None
    with sig assms show ?thesis by (simp add: razorpay_webhook_def)
  next
    case (Some event)
    show ?thesis
    proof (cases "py_get event ''event'' JNull")
      case (Inl x)
      with sig Some assms show ?thesis by (simp add: razorpay_webhook_def)
    next
      case kind: (Inr event_id)
      show ?thesis
      proof (cases "razorpay_payment_id event")
        case (Inl x)
        with sig Some kind assms show ?thesis by (simp add: razorpay_webhook_def)
      next
        case pid: (Inr payment_id)
        let ?key = "''razorpay_webhook:'' @ py_str env payment_id"
        show ?thesis
        proof (cases "truthy payment_id \<and> \<not> redis_exists w ?key")
          case False
          with sig Some kind pid assms show ?thesis
            by (auto simp add: razorpay_webhook_def Let_def split: if_splits)
        next
          case go: True
          let ?a = "if event_id = JStr ''payment.captured''
                    then razorpay_apply_event event w else Inr w"
          show ?thesis
          proof (cases ?a)
            case (Inl x)
            with sig Some kind pid go assms show ?thesis
              by (simp add: razorpay_webhook_def Let_def)
          next
            case a: (Inr w1)
            then have fr: "connected w1 = connected w" "kv w1 = kv w" "clock w1 = clock w"
              using razorpay_apply_event_frame [of event w w1] by (auto split: if_splits)
            have h1: "held w1 k v e" using assms(1) held_frame [OF fr] by simp
            have n1: "\<not> redis_exists w1 ?key" using go exists_frame [OF fr] by simp
            from record_held [OF h1 n1, of "''processed''"] sig Some kind pid go a assms(2) fr
            show ?thesis by (auto simp add: razorpay_webhook_def Let_def)
          qed
        qed
      qed
    qed
  qed
qed

lemma verify_payment_held:
  assumes "held w k v e" "verify_razorpay_payment env oid pid sg uid w = (r, w')"
  shows "held w' k v e \<and> clock w' = clock w"
proof (cases "\<not> redis_exists w (''razorpay_payment:'' @ pid)
              \<and> verify_payment_signature env oid pid sg")
  case False
  with assms show ?thesis
    by (auto simp add: verify_razorpay_payment_def Let_def split: if_splits)
next
  case go: True
  let ?w1 = "set_paid uid w"
  have fr: "connected ?w1 = connected w" "kv ?w1 = kv w" "clock ?w1 = clock w"
    by (simp_all add: set_paid_def)
  have h1: "held ?w1 k v e" using assms(1) held_frame [OF fr] by simp
  have n1: "\<not> redis_exists ?w1 (''razorpay_payment:'' @ pid)"
    using go exists_frame [OF fr] by simp
  from record_held [OF h1 n1, of "''processed''"] go assms(2) fr
  show ?thesis by (auto simp add: verify_razorpay_payment_def Let_def)
qed

lemma provider_call_held:
  "held (w\<lparr>provider_calls := n\<rparr>) k v e = held w k v e"
  by (simp add: held_def)

lemma create_checkout_session_held:
  "held w k v e \<Longrightarrow> create_checkout_session env mail uid su cu w = (x, w') \<Longrightarrow>
     held w' k v e \<and> clock w' = clock w"
  by (auto simp add: stripe_adapter_error provider_call_held)

lemma create_order_held:
  "held w k v e \<Longrightarrow> create_order env uid amt w = (x, w') \<Longrightarrow>
     held w' k v e \<and> clock w' = clock w"
  by (auto simp add: create_order_def Let_def provider_call_held
        split: if_splits sum.splits)

lemma checkout_held:
  "held w k v e \<Longrightarrow> create_stripe_checkout env uid cu w = (r, w') \<Longrightarrow>
     held w' k v e \<and> clock w' = clock w"
  "held w k v e \<Longrightarrow> create_razorpay_order env uid cu w = (r, w') \<Longrightarrow>
     held w' k v e \<and> clock w' = clock w"
  "held w k v e \<Longrightarrow> create_checkout env uid cu g w = (r, w') \<Longrightarrow>
     held w' k v e \<and> clock w' = clock w"
  by (auto simp add: create_stripe_checkout_def create_razorpay_order_def create_checkout_def
        split: if_splits sum.splits prod.splits
        dest: create_checkout_session_held create_order_held)

lemma handle_held:
  assumes "held w k v e" "handle env req w = (r, w')"
  shows "held w' k v e \<and> clock w' = clock w"
proof (cases req)
  case (StripeWebhook p s)
  with assms stripe_webhook_held [of w k v e env p s r w'] show ?thesis by simp
next
  case (RazorpayWebhook p s)
  with assms razorpay_webhook_held [of w k v e env p s r w'] show ?thesis by simp
next
  case (VerifyRazorpayPayment oid pid sg uid)
  with assms verify_payment_held [of w k v e env oid pid sg uid r w'] show ?thesis by simp
next
  case (CreateStripeCheckout uid u)
  with assms checkout_held(1) [of w k v e env uid u r w'] show ?thesis by simp
next
  case (CreateRazorpayOrder uid u)
  with assms checkout_held(2) [of w k v e env uid u r w'] show ?thesis by simp
next
  case (CreateCheckout uid u g)
  with assms checkout_held(3) [of w k v e env uid u g r w'] show ?thesis by simp
qed

lemma redis_incr_held:
  assumes "held w k v e" "redis_incr w k' = (x, w1)"
  shows "held w1 k v e \<and> clock w1 = clock w"
proof (cases "k' = k")
  case True
  with assms show ?thesis by (auto simp add: redis_incr_def held_def live_def)
next
  case False
  with assms show ?thesis
    by (auto simp add: redis_incr_def held_def
          split: option.splits rval.splits prod.splits)
qed

lemma redis_expire_held:
  assumes "held w k v e" "k' \<noteq> k"
  shows "held (snd (redis_expire w k' t)) k v e \<and> clock (snd (redis_expire w k' t)) = clock w"
  using assms
  by (auto simp add: redis_expire_def held_def split: option.splits prod.splits)

lemma incr_one_other_key:
  assumes "held w k v e" "redis_incr w k' = (Inr 1, w1)"
  shows "k' \<noteq> k"
  using assms by (auto simp add: redis_incr_def held_def live_def)

lemma check_rate_limit_held:
  assumes "held w k v e" "check_rate_limit lim client path w = (r, w')"
  shows "held w' k v e \<and> clock w' = clock w"
proof -
  let ?k = "rate_key client path"
  obtain x w1 where i: "redis_incr w ?k = (x, w1)" by (cases "redis_incr w ?k")
  have h1: "held w1 k v e" "clock w1 = clock w" using redis_incr_held [OF assms(1) i] by simp_all
  show ?thesis
  proof (cases x)
    case (Inl err)
    with i assms(2) h1 show ?thesis by (simp add: check_rate_limit_def)
  next
    case (Inr current)
    show ?thesis
    proof (cases "current = 1")
      case True
      then have "?k \<noteq> k" using incr_one_other_key [OF assms(1)] i Inr by simp
      from redis_expire_held [OF h1(1) this, of "window_seconds lim"] i Inr True assms(2) h1(2)
      show ?thesis by (auto simp add: check_rate_limit_def Let_def split: if_splits)
    next
      case False
      with i Inr assms(2) h1 show ?thesis
        by (auto simp add: check_rate_limit_def Let_def split: if_splits)
    qed
  qed
qed

lemma step_held:
  assumes "held w k v e" "clock w + elapsed [ev] < e"
  shows "held (step env ev w) k v e \<and> clock (step env ev w) = clock w + elapsed [ev]"
proof (cases ev)
  case (Request req)
  with assms handle_held [of w k v e env req "fst (handle env req w)" "snd (handle env req w)"]
  show ?thesis by simp
next
  case (RateCheck lim client path)
  with assms check_rate_limit_held [of w k v e lim client path
      "fst (check_rate_limit lim client path w)" "snd (check_rate_limit lim client path w)"]
  show ?thesis by simp
next
  case (Tick d)
  with assms show ?thesis by (simp add: held_def advance_def)
qed

lemma elapsed_nonneg: "0 \<le> elapsed evs"
  by (induction evs rule: elapsed.induct) auto

lemma elapsed_Cons: "elapsed (ev # evs) = elapsed [ev] + elapsed evs"
  by (cases ev) auto

lemma run_held:
  "held w k v e \<Longrightarrow> clock w + elapsed evs < e \<Longrightarrow>
     held (run env evs w) k v e \<and> clock (run env evs w) = clock w + elapsed evs"
proof (induction evs arbitrary: w)
  case Nil
  then show ?case by simp
next
  case (Cons ev evs)
  have split: "elapsed (ev # evs) = elapsed [ev] + elapsed evs" by (rule elapsed_Cons)
  have "clock w + elapsed [ev] < e"
    using Cons.prems(2) split elapsed_nonneg [of evs] by simp
  from step_held [OF Cons.prems(1) this]
  have st: "held (step env ev w) k v e" "clock (step env ev w) = clock w + elapsed [ev]"
    by simp_all
  have "clock (step env ev w) + elapsed evs < e" using st(2) Cons.prems(2) split by simp
  from Cons.IH [OF st(1) this] st(2) split show ?case by simp
qed

lemma held_exists: "held w k v e \<Longrightarrow> redis_exists w k"
  by (simp add: held_def redis_exists_def live_def)

lemma recorded_then_seen:
  assumes "kv w1 k = Some (Marker v, Some (c + 86400)) \<and> clock w1 = c \<and> connected w1"
    and "elapsed evs < 86400"
  shows "redis_exists (run env evs w1) k"
proof -
  have "held w1 k v (c + 86400)" using assms(1) by (simp add: held_def)
  moreover have "clock w1 + elapsed evs < c + 86400" using assms by simp
  ultimately show ?thesis using run_held held_exists by blast
qed

text \<open>
  Claim C3, amended. With Redis connected, let a first delivery be answered \<open>success\<close>,
  so that it wrote its idempotency key with a lifetime of 86400 seconds. Whatever happens then
  (requests to the billing router, rate-limit checks, time passing) while less than 86400
  seconds go by, a second delivery that verifies and carries the same Stripe event id, or
  the same Razorpay payment entity id, is answered \<open>already_processed\<close> and leaves the
  world as it found it: no entitlement update, no commit, no write to the store. In the
  same way a verify-payment call that repeats a payment id recorded by a successful call is
  answered \<open>already_processed\<close> whatever its order id, signature and user, without
  verification and without a change of state.
\<close>

theorem duplicate_delivery_already_processed:
  assumes "connected w" and "elapsed evs < 86400"
  shows "(construct_webhook_event env p1 s1 = Inr ev1
            \<and> construct_webhook_event env p2 s2 = Inr ev2 \<and> ev_id ev2 = ev_id ev1
            \<and> stripe_webhook env p1 s1 w = (Ok (Ack ''success''), w1) \<longrightarrow>
          stripe_webhook env p2 s2 (run env evs w1)
            = (Ok (Ack ''already_processed''), run env evs w1))
       \<and> (verify_webhook_signature env p1 s1 = Inr True \<and> json_loads env p1 = Some e1
            \<and> verify_webhook_signature env p2 s2 = Inr True \<and> json_loads env p2 = Some e2
            \<and> razorpay_payment_id e1 = Inr pid \<and> razorpay_payment_id e2 = Inr pid
            \<and> truthy pid
            \<and> razorpay_webhook env p1 s1 w = (Ok (Ack ''success''), w2) \<longrightarrow>
          razorpay_webhook env p2 s2 (run env evs w2)
            = (Ok (Ack ''already_processed''), run env evs w2))
       \<and> (verify_razorpay_payment env oid1 payid sg1 uid1 w
            = (Ok (AckPaid ''success'' True), w3) \<longrightarrow>
          verify_razorpay_payment env oid2 payid sg2 uid2 (run env evs w3)
            = (Ok (AckPaid ''already_processed'' True), run env evs w3))"
proof (intro conjI impI)
  assume a: "construct_webhook_event env p1 s1 = Inr ev1
            \<and> construct_webhook_event env p2 s2 = Inr ev2 \<and> ev_id ev2 = ev_id ev1
            \<and> stripe_webhook env p1 s1 w = (Ok (Ack ''success''), w1)"
  then have "kv w1 (''stripe_event:'' @ ev_id ev1)
               = Some (Marker ''processed'', Some (clock w + 86400))
             \<and> clock w1 = clock w \<and> connected w1"
    using stripe_webhook_success [OF assms(1)] by blast
  then have "redis_exists (run env evs w1) (''stripe_event:'' @ ev_id ev2)"
    using a recorded_then_seen [OF _ assms(2)] by simp
  then show "stripe_webhook env p2 s2 (run env evs w1)
            = (Ok (Ack ''already_processed''), run env evs w1)"
    using a stripe_webhook_seen by blast
next
  assume a: "verify_webhook_signature env p1 s1 = Inr True \<and> json_loads env p1 = Some e1
            \<and> verify_webhook_signature env p2 s2 = Inr True \<and> json_loads env p2 = Some e2
            \<and> razorpay_payment_id e1 = Inr pid \<and> razorpay_payment_id e2 = Inr pid
            \<and> truthy pid
            \<and> razorpay_webhook env p1 s1 w = (Ok (Ack ''success''), w2)"
  then have "kv w2 (''razorpay_webhook:'' @ py_str env pid)
               = Some (Marker ''processed'', Some (clock w + 86400))
             \<and> clock w2 = clock w \<and> connected w2"
    using razorpay_webhook_success [OF assms(1)] by blast
  then have "redis_exists (run env evs w2) (''razorpay_webhook:'' @ py_str env pid)"
    using recorded_then_seen [OF _ assms(2)] by simp
  then show "razorpay_webhook env p2 s2 (run env evs w2)
            = (Ok (Ack ''already_processed''), run env evs w2)"
    using a razorpay_webhook_seen by blast
next
  assume a: "verify_razorpay_payment env oid1 payid sg1 uid1 w
            = (Ok (AckPaid ''success'' True), w3)"
  then have "kv w3 (''razorpay_payment:'' @ payid)
               = Some (Marker ''processed'', Some (clock w + 86400))
             \<and> clock w3 = clock w \<and> connected w3"
    using verify_payment_success [OF assms(1)] by blast
  then have "redis_exists (run env evs w3) (''razorpay_payment:'' @ payid)"
    using recorded_then_seen [OF _ assms(2)] by simp
  then show "verify_razorpay_payment env oid2 payid sg2 uid2 (run env evs w3)
            = (Ok (AckPaid ''already_processed'' True), run env evs w3)"
    by (simp add: verify_razorpay_payment_def)
qed

lemmas handler_defs =
  stripe_webhook_def razorpay_webhook_def verify_razorpay_payment_def
  construct_webhook_event_def verify_webhook_signature_def compare_digest_def is_ascii_def
  verify_payment_signature_def
  razorpay_client_def stripe_apply_event_def razorpay_apply_event_def
  razorpay_payment_id_def py_str_def set_paid_def

lemma demo_first_stripe:
  "stripe_webhook demo_env ''paid1'' ''good'' demo_world = (Ok (Ack ''success''), demo_after_stripe)"
proof -
  have "fst (stripe_webhook demo_env ''paid1'' ''good'' demo_world) = Ok (Ack ''success'')"
    by (simp add: handler_defs demo_defs redis_defs int_defs)
  then show ?thesis by (simp add: demo_after_stripe_def prod_eq_iff)
qed

lemma demo_first_razorpay:
  "razorpay_webhook demo_env ''captured1'' ''good'' demo_world
     = (Ok (Ack ''success''), demo_after_razorpay)"
proof -
  have "fst (razorpay_webhook demo_env ''captured1'' ''good'' demo_world) = Ok (Ack ''success'')"
    by (simp add: handler_defs demo_defs redis_defs int_defs)
  then show ?thesis by (simp add: demo_after_razorpay_def prod_eq_iff)
qed

lemma demo_first_verify:
  "verify_razorpay_payment demo_env ''order_1'' ''pay_1'' ''good'' 1 demo_world
     = (Ok (AckPaid ''success'' True), demo_after_verify)"
proof -
  have "fst (verify_razorpay_payment demo_env ''order_1'' ''pay_1'' ''good'' 1 demo_world)
          = Ok (AckPaid ''success'' True)"
    by (simp add: handler_defs demo_defs redis_defs int_defs)
  then show ?thesis by (simp add: demo_after_verify_def prod_eq_iff)
qed

lemma demo_payloads:
  "construct_webhook_event demo_env ''paid1'' ''good'' = Inr (demo_session ''evt_1'' ''1'')"
  "construct_webhook_event demo_env ''paid1_again'' ''good'' = Inr (demo_session ''evt_1'' ''1'')"
  "verify_webhook_signature demo_env ''captured1'' ''good'' = Inr True"
  "verify_webhook_signature demo_env ''captured1_again'' ''good'' = Inr True"
  "json_loads demo_env ''captured1'' = Some (demo_captured ''pay_1'' (JObj [(''user_id'', JStr ''1'')]))"
  "json_loads demo_env ''captured1_again'' = Some (demo_captured ''pay_1'' (JObj [(''user_id'', JStr ''1'')]))"
  "razorpay_payment_id (demo_captured ''pay_1'' (JObj [(''user_id'', JStr ''1'')])) = Inr (JStr ''pay_1'')"
  by (simp_all add: construct_webhook_event_def verify_webhook_signature_def
        compare_digest_def is_ascii_def
        razorpay_payment_id_def demo_env_def demo_construct_def demo_loads_def demo_captured_def)

theorem duplicate_delivery_already_processed_witness:
  "connected demo_world \<and> elapsed demo_between < 86400
   \<and> stripe_webhook demo_env ''paid1'' ''good'' demo_world
       = (Ok (Ack ''success''), demo_after_stripe)
   \<and> stripe_webhook demo_env ''paid1_again'' ''good'' (run demo_env demo_between demo_after_stripe)
       = (Ok (Ack ''already_processed''), run demo_env demo_between demo_after_stripe)
   \<and> razorpay_webhook demo_env ''captured1'' ''good'' demo_world
       = (Ok (Ack ''success''), demo_after_razorpay)
   \<and> razorpay_webhook demo_env ''captured1_again'' ''good''
         (run demo_env demo_between demo_after_razorpay)
       = (Ok (Ack ''already_processed''), run demo_env demo_between demo_after_razorpay)
   \<and> verify_razorpay_payment demo_env ''order_1'' ''pay_1'' ''good'' 1 demo_world
       = (Ok (AckPaid ''success'' True), demo_after_verify)
   \<and> verify_razorpay_payment demo_env ''order_9'' ''pay_1'' ''forged'' 2
         (run demo_env demo_between demo_after_verify)
       = (Ok (AckPaid ''already_processed'' True), run demo_env demo_between demo_after_verify)"
proof -
  have c: "connected demo_world" by (simp add: demo_world_def)
  have d: "elapsed demo_between < 86400" by (simp add: demo_between_def)
  from duplicate_delivery_already_processed [OF c d, where env = demo_env
          and ?p1.0 = "''paid1''" and ?s1.0 = "''good''"
          and ?ev1.0 = "demo_session ''evt_1'' ''1''"
          and ?p2.0 = "''paid1_again''" and ?s2.0 = "''good''"
          and ?ev2.0 = "demo_session ''evt_1'' ''1''" and ?w1.0 = demo_after_stripe]
       duplicate_delivery_already_processed [OF c d, where env = demo_env
          and ?p1.0 = "''captured1''" and ?s1.0 = "''good''"
          and ?e1.0 = "demo_captured ''pay_1'' (JObj [(''user_id'', JStr ''1'')])"
          and ?p2.0 = "''captured1_again''" and ?s2.0 = "''good''"
          and ?e2.0 = "demo_captured ''pay_1'' (JObj [(''user_id'', JStr ''1'')])"
          and pid = "JStr ''pay_1''" and ?w2.0 = demo_after_razorpay
          and ?oid1.0 = "''order_1''" and payid = "''pay_1''" and ?sg1.0 = "''good''"
          and ?uid1.0 = 1 and ?w3.0 = demo_after_verify
          and ?oid2.0 = "''order_9''" and ?sg2.0 = "''forged''" and ?uid2.0 = 2]
       c d demo_first_stripe demo_first_razorpay demo_first_verify demo_payloads
  show ?thesis by simp
qed

text \<open>
  Claim C3, as stated, fails. The key is written with a lifetime of 86400 seconds and is
  gone after that. A second delivery of the same Stripe event, or of the same Razorpay
  payment, 86400 seconds after the first is answered \<open>success\<close> and commits a second
  time; a verify-payment call that repeats the payment id then runs the verification
  again, and is refused with 400 when its signature does not verify.
\<close>

theorem duplicate_after_expiry_counterexample:
  "stripe_webhook demo_env ''paid1'' ''good'' demo_world
     = (Ok (Ack ''success''), demo_after_stripe)
   \<and> kv demo_after_stripe ''stripe_event:evt_1'' = Some (Marker ''processed'', Some 86400)
   \<and> commits demo_after_stripe = 1
   \<and> fst (stripe_webhook demo_env ''paid1_again'' ''good''
            (run demo_env [Tick 86400] demo_after_stripe)) = Ok (Ack ''success'')
   \<and> commits (snd (stripe_webhook demo_env ''paid1_again'' ''good''
            (run demo_env [Tick 86400] demo_after_stripe))) = 2
   \<and> razorpay_webhook demo_env ''captured1'' ''good'' demo_world
     = (Ok (Ack ''success''), demo_after_razorpay)
   \<and> fst (razorpay_webhook demo_env ''captured1_again'' ''good''
            (run demo_env [Tick 86400] demo_after_razorpay)) = Ok (Ack ''success'')
   \<and> commits (snd (razorpay_webhook demo_env ''captured1_again'' ''good''
            (run demo_env [Tick 86400] demo_after_razorpay))) = 2
   \<and> verify_razorpay_payment demo_env ''order_1'' ''pay_1'' ''good'' 1 demo_world
       = (Ok (AckPaid ''success'' True), demo_after_verify)
   \<and> fst (verify_razorpay_payment demo_env ''order_9'' ''pay_1'' ''forged'' 2
            (run demo_env [Tick 86400] demo_after_verify))
       = HTTPError 400 ''Invalid payment signature''"
proof -
  have "kv demo_after_stripe ''stripe_event:evt_1'' = Some (Marker ''processed'', Some 86400)"
    "commits demo_after_stripe = 1"
    "fst (stripe_webhook demo_env ''paid1_again'' ''good''
            (run demo_env [Tick 86400] demo_after_stripe)) = Ok (Ack ''success'')"
    "commits (snd (stripe_webhook demo_env ''paid1_again'' ''good''
            (run demo_env [Tick 86400] demo_after_stripe))) = 2"
    by (simp_all add: demo_after_stripe_def handler_defs demo_defs redis_defs int_defs)
  moreover have
    "fst (razorpay_webhook demo_env ''captured1_again'' ''good''
            (run demo_env [Tick 86400] demo_after_razorpay)) = Ok (Ack ''success'')"
    "commits (snd (razorpay_webhook demo_env ''captured1_again'' ''good''
            (run demo_env [Tick 86400] demo_after_razorpay))) = 2"
    by (simp_all add: demo_after_razorpay_def handler_defs demo_defs redis_defs int_defs)
  moreover have
    "fst (verify_razorpay_payment demo_env ''order_9'' ''pay_1'' ''forged'' 2
            (run demo_env [Tick 86400] demo_after_verify))
       = HTTPError 400 ''Invalid payment signature''"
    by (simp add: demo_after_verify_def handler_defs demo_defs redis_defs int_defs)
  ultimately show ?thesis
    using demo_first_stripe demo_first_razorpay demo_first_verify by simp
qed

text \<open>
  Claim C5, as stated, fails. The Razorpay handler writes its key only inside
  \<open>if payment_id:\<close>. A verified \<open>invoice.paid\<close> event that has no payment entity is
  acknowledged with \<open>success\<close> and the store stays empty, so delivering it again is
  answered \<open>success\<close> once more and not \<open>already_processed\<close>.
\<close>

theorem no_payment_id_no_key_counterexample:
  "verify_webhook_signature demo_env ''no_payment'' ''good'' = Inr True
   \<and> razorpay_webhook demo_env ''no_payment'' ''good'' demo_world
       = (Ok (Ack ''success''), demo_world)
   \<and> dom (kv demo_world) = {}
   \<and> razorpay_webhook demo_env ''no_payment'' ''good''
         (snd (razorpay_webhook demo_env ''no_payment'' ''good'' demo_world))
       = (Ok (Ack ''success''), demo_world)"
  by (simp add: handler_defs demo_defs redis_defs)

lemma stripe_webhook_other_kind:
  assumes "connected w" "construct_webhook_event env p s = Inr ev"
    and "ev_type ev \<noteq> ''checkout.session.completed''"
    and "\<not> redis_exists w (''stripe_event:'' @ ev_id ev)"
  shows "stripe_webhook env p s w
           = (Ok (Ack ''success''),
              w\<lparr>kv := (kv w)(''stripe_event:'' @ ev_id ev
                          \<mapsto> (Marker ''processed'', Some (clock w + 86400)))\<rparr>)"
  using assms by (simp add: stripe_webhook_def redis_set_connected Let_def)

lemma razorpay_webhook_other_kind:
  assumes "connected w" "verify_webhook_signature env p s = Inr True"
    and "json_loads env p = Some event"
    and "py_get event ''event'' JNull = Inr kind" "kind \<noteq> JStr ''payment.captured''"
    and "razorpay_payment_id event = Inr pid" "truthy pid"
    and "\<not> redis_exists w (''razorpay_webhook:'' @ py_str env pid)"
  shows "razorpay_webhook env p s w
           = (Ok (Ack ''success''),
              w\<lparr>kv := (kv w)(''razorpay_webhook:'' @ py_str env pid
                          \<mapsto> (Marker ''processed'', Some (clock w + 86400)))\<rparr>)"
  using assms by (simp add: razorpay_webhook_def redis_set_connected Let_def)

lemma razorpay_webhook_no_payment_id:
  assumes "verify_webhook_signature env p s = Inr True" "json_loads env p = Some event"
    and "razorpay_payment_id event = Inr pid" "\<not> truthy pid"
  shows "razorpay_webhook env p s w = (Ok (Ack ''success''), w)"
  using assms payment_id_has_event [of event pid]
  by (auto simp add: razorpay_webhook_def)

text \<open>
  Claim C5, amended. With Redis connected, a verified webhook that is answered \<open>success\<close>
  and carries an id (a Stripe event always does; a Razorpay event does when its payment
  entity id is truthy) has written its key with the marker \<open>processed\<close> and an expiry 86400
  seconds after the call. An event of a kind that changes no state and is not yet
  recorded is always answered \<open>success\<close>, and the new key is then the only change. A
  verified Razorpay event without a payment entity id is answered \<open>success\<close> with no key
  written.
\<close>

theorem idempotency_key_recorded:
  assumes "connected w"
  shows "(construct_webhook_event env p s = Inr ev
            \<and> stripe_webhook env p s w = (Ok (Ack ''success''), w1) \<longrightarrow>
          kv w1 (''stripe_event:'' @ ev_id ev)
            = Some (Marker ''processed'', Some (clock w + 86400)))
       \<and> (construct_webhook_event env p s = Inr ev
            \<and> ev_type ev \<noteq> ''checkout.session.completed''
            \<and> \<not> redis_exists w (''stripe_event:'' @ ev_id ev) \<longrightarrow>
          stripe_webhook env p s w
            = (Ok (Ack ''success''),
               w\<lparr>kv := (kv w)(''stripe_event:'' @ ev_id ev
                           \<mapsto> (Marker ''processed'', Some (clock w + 86400)))\<rparr>))
       \<and> (verify_webhook_signature env p s = Inr True \<and> json_loads env p = Some event
            \<and> razorpay_payment_id event = Inr pid \<and> truthy pid
            \<and> razorpay_webhook env p s w = (Ok (Ack ''success''), w2) \<longrightarrow>
          kv w2 (''razorpay_webhook:'' @ py_str env pid)
            = Some (Marker ''processed'', Some (clock w + 86400)))
       \<and> (verify_webhook_signature env p s = Inr True \<and> json_loads env p = Some event
            \<and> py_get event ''event'' JNull = Inr kind \<and> kind \<noteq> JStr ''payment.captured''
            \<and> razorpay_payment_id event = Inr pid \<and> truthy pid
            \<and> \<not> redis_exists w (''razorpay_webhook:'' @ py_str env pid) \<longrightarrow>
          razorpay_webhook env p s w
            = (Ok (Ack ''success''),
               w\<lparr>kv := (kv w)(''razorpay_webhook:'' @ py_str env pid
                           \<mapsto> (Marker ''processed'', Some (clock w + 86400)))\<rparr>))
       \<and> (verify_webhook_signature env p s = Inr True \<and> json_loads env p = Some event
            \<and> razorpay_payment_id event = Inr pid \<and> \<not> truthy pid \<longrightarrow>
          razorpay_webhook env p s w = (Ok (Ack ''success''), w))"
  using assms stripe_webhook_success [of w env p s ev w1]
    stripe_webhook_other_kind [of w env p s ev]
    razorpay_webhook_success [of w env p s event pid w2]
    razorpay_webhook_other_kind [of w env p s event kind pid]
    razorpay_webhook_no_payment_id [of env p s event pid w]
  by blast


theorem idempotency_key_recorded_witness:
  "connected demo_world
   \<and> construct_webhook_event demo_env ''ping'' ''good'' = Inr demo_ping
   \<and> ev_type demo_ping \<noteq> ''checkout.session.completed''
   \<and> \<not> redis_exists demo_world ''stripe_event:evt_3''
   \<and> stripe_webhook demo_env ''ping'' ''good'' demo_world
       = (Ok (Ack ''success''),
          demo_world\<lparr>kv := (kv demo_world)(''stripe_event:evt_3''
                               \<mapsto> (Marker ''processed'', Some 86400))\<rparr>)
   \<and> stripe_webhook demo_env ''paid1'' ''good'' demo_world
       = (Ok (Ack ''success''), demo_after_stripe)
   \<and> kv demo_after_stripe ''stripe_event:evt_1'' = Some (Marker ''processed'', Some 86400)
   \<and> verify_webhook_signature demo_env ''authorized'' ''good'' = Inr True
   \<and> json_loads demo_env ''authorized'' = Some demo_authorized
   \<and> py_get demo_authorized ''event'' JNull = Inr (JStr ''payment.authorized'')
   \<and> razorpay_payment_id demo_authorized = Inr (JStr ''pay_4'')
   \<and> \<not> redis_exists demo_world ''razorpay_webhook:pay_4''
   \<and> razorpay_webhook demo_env ''authorized'' ''good'' demo_world
       = (Ok (Ack ''success''),
          demo_world\<lparr>kv := (kv demo_world)(''razorpay_webhook:pay_4''
                               \<mapsto> (Marker ''processed'', Some 86400))\<rparr>)
   \<and> razorpay_webhook demo_env ''captured1'' ''good'' demo_world
       = (Ok (Ack ''success''), demo_after_razorpay)
   \<and> kv demo_after_razorpay ''razorpay_webhook:pay_1'' = Some (Marker ''processed'', Some 86400)
   \<and> verify_webhook_signature demo_env ''no_payment'' ''good'' = Inr True
   \<and> json_loads demo_env ''no_payment'' = Some demo_no_payment
   \<and> razorpay_payment_id demo_no_payment = Inr JNull
   \<and> razorpay_webhook demo_env ''no_payment'' ''good'' demo_world
       = (Ok (Ack ''success''), demo_world)"
proof -
  have c: "connected demo_world" by (simp add: demo_world_def)
  have f: "construct_webhook_event demo_env ''ping'' ''good'' = Inr demo_ping"
    "ev_type demo_ping \<noteq> ''checkout.session.completed''"
    "ev_id demo_ping = ''evt_3''"
    "\<not> redis_exists demo_world ''stripe_event:evt_3''"
    "\<not> redis_exists demo_world ''razorpay_webhook:pay_4''"
    "verify_webhook_signature demo_env ''authorized'' ''good'' = Inr True"
    "json_loads demo_env ''authorized'' = Some demo_authorized"
    "py_get demo_authorized ''event'' JNull = Inr (JStr ''payment.authorized'')"
    "razorpay_payment_id demo_authorized = Inr (JStr ''pay_4'')"
    "verify_webhook_signature demo_env ''no_payment'' ''good'' = Inr True"
    "json_loads demo_env ''no_payment'' = Some demo_no_payment"
    "razorpay_payment_id demo_no_payment = Inr JNull"
    "clock demo_world = 0"
    by (simp_all add: construct_webhook_event_def verify_webhook_signature_def
        compare_digest_def is_ascii_def
          razorpay_payment_id_def redis_exists_def live_def demo_defs)
  have g: "ev_id (demo_session ''evt_1'' ''1'') = ''evt_1''"
    "py_str demo_env (JStr ''pay_1'') = ''pay_1''" "py_str demo_env (JStr ''pay_4'') = ''pay_4''"
    by (simp_all add: demo_session_def py_str_def)
  from idempotency_key_recorded [OF c, where env = demo_env and p = "''ping''"
          and s = "''good''" and ev = demo_ping]
       idempotency_key_recorded [OF c, where env = demo_env and p = "''paid1''"
          and s = "''good''" and ev = "demo_session ''evt_1'' ''1''"
          and ?w1.0 = demo_after_stripe]
       idempotency_key_recorded [OF c, where env = demo_env and p = "''authorized''"
          and s = "''good''" and event = demo_authorized
          and kind = "JStr ''payment.authorized''" and pid = "JStr ''pay_4''"]
       idempotency_key_recorded [OF c, where env = demo_env and p = "''captured1''"
          and s = "''good''"
          and event = "demo_captured ''pay_1'' (JObj [(''user_id'', JStr ''1'')])"
          and pid = "JStr ''pay_1''" and ?w2.0 = demo_after_razorpay]
       idempotency_key_recorded [OF c, where env = demo_env and p = "''no_payment''"
          and s = "''good''" and event = demo_no_payment and pid = JNull]
       c f g demo_first_stripe demo_first_razorpay demo_payloads
  show ?thesis by simp
qed

subsection \<open>The entitlement flag only rises\<close>

lemma redis_set_users:
  "redis_set w k v ttl = (x, w') \<Longrightarrow> users w' = users w \<and> commits w' = commits w"
  by (auto simp add: redis_set_def split: if_splits option.splits)

lemma stripe_apply_event_users:
  "stripe_apply_event ev w = Inr w1 \<Longrightarrow>
     users w1 i = users w i
     \<or> (\<exists>u c. users w i = Some u
           \<and> users w1 i = Some (u\<lparr>user_is_paid := True, user_stripe_customer_id := c\<rparr>))"
  by (auto simp add: stripe_apply_event_def split: option.splits if_splits)

lemma razorpay_apply_event_users:
  "razorpay_apply_event event w = Inr w1 \<Longrightarrow>
     users w1 i = users w i
     \<or> (\<exists>u. users w i = Some u \<and> users w1 i = Some (u\<lparr>user_is_paid := True\<rparr>))"
  by (auto simp add: razorpay_apply_event_def split: option.splits if_splits sum.splits)

lemma stripe_webhook_unverified:
  "stripe_webhook env p s w = (r, w') \<Longrightarrow> \<not> verified_payment env (StripeWebhook p s) \<Longrightarrow>
     users w' = users w"
  by (auto simp add: stripe_webhook_def Let_def
        split: sum.splits if_splits prod.splits dest!: redis_set_users)

lemma stripe_webhook_users:
  assumes "stripe_webhook env p s w = (r, w')"
  shows "users w' i = users w i
       \<or> (\<exists>u c. users w i = Some u
             \<and> users w' i = Some (u\<lparr>user_is_paid := True, user_stripe_customer_id := c\<rparr>))"
  using assms
  by (auto simp add: stripe_webhook_def Let_def
        split: sum.splits if_splits prod.splits
        dest!: redis_set_users stripe_apply_event_users [where i = i])

lemma razorpay_webhook_unverified:
  "razorpay_webhook env p s w = (r, w') \<Longrightarrow> \<not> verified_payment env (RazorpayWebhook p s) \<Longrightarrow>
     users w' = users w"
  by (auto simp add: razorpay_webhook_def Let_def
        split: sum.splits if_splits prod.splits option.splits dest!: redis_set_users)

lemma razorpay_webhook_users:
  assumes "razorpay_webhook env p s w = (r, w')"
  shows "users w' i = users w i
       \<or> (\<exists>u. users w i = Some u \<and> users w' i = Some (u\<lparr>user_is_paid := True\<rparr>))"
  using assms
  by (auto simp add: razorpay_webhook_def Let_def
        split: sum.splits if_splits prod.splits option.splits
        dest!: redis_set_users razorpay_apply_event_users [where i = i])

lemma verify_payment_unverified:
  "verify_razorpay_payment env oid pid sg uid w = (r, w') \<Longrightarrow>
   \<not> verified_payment env (VerifyRazorpayPayment oid pid sg uid) \<Longrightarrow> users w' = users w"
  by (auto simp add: verify_razorpay_payment_def Let_def
        split: sum.splits if_splits prod.splits dest!: redis_set_users)

lemma verify_payment_users:
  assumes "verify_razorpay_payment env oid pid sg uid w = (r, w')"
  shows "users w' i = users w i
       \<or> (\<exists>u. users w i = Some u \<and> users w' i = Some (u\<lparr>user_is_paid := True\<rparr>))"
  using assms
  by (auto simp add: verify_razorpay_payment_def set_paid_def Let_def
        split: sum.splits if_splits prod.splits option.splits dest!: redis_set_users)

lemma checkout_users:
  "create_stripe_checkout env uid cu w = (r, w') \<Longrightarrow> users w' = users w"
  "create_razorpay_order env uid cu w = (r, w') \<Longrightarrow> users w' = users w"
  "create_checkout env uid cu g w = (r, w') \<Longrightarrow> users w' = users w"
  by (auto simp add: create_stripe_checkout_def create_razorpay_order_def create_checkout_def
        create_checkout_session_def create_order_def Let_def
        split: if_splits sum.splits prod.splits create_result.splits)

lemma handle_unverified:
  assumes "handle env req w = (r, w')" "\<not> verified_payment env req"
  shows "users w' = users w"
  using assms stripe_webhook_unverified razorpay_webhook_unverified verify_payment_unverified
    checkout_users
  by (cases req) auto

lemma handle_users:
  assumes "handle env req w = (r, w')"
  shows "users w' i = users w i
       \<or> (\<exists>u. users w i = Some u \<and> (\<exists>u'. users w' i = Some u' \<and> user_is_paid u'))"
proof (cases req)
  case (StripeWebhook p s)
  with assms stripe_webhook_users [of env p s w r w' i] show ?thesis by auto
next
  case (RazorpayWebhook p s)
  with assms razorpay_webhook_users [of env p s w r w' i] show ?thesis by auto
next
  case (VerifyRazorpayPayment oid pid sg uid)
  with assms verify_payment_users [of env oid pid sg uid w r w' i] show ?thesis by auto
next
  case (CreateStripeCheckout uid u)
  with assms checkout_users(1) show ?thesis by simp
next
  case (CreateRazorpayOrder uid u)
  with assms checkout_users(2) show ?thesis by simp
next
  case (CreateCheckout uid u g)
  with assms checkout_users(3) show ?thesis by simp
qed

text \<open>
  Claim C2. Every operation of the billing subsystem (the two webhooks, verify-payment and
  the three checkout endpoints, taken together as \<open>handle\<close>) keeps \<open>is_paid\<close> monotone:
  a user that exists before the call exists after it, a user that was paid is still paid,
  and when a user's \<open>is_paid\<close> differs after the call it has become true and the request
  carried a payment event or confirmation whose signature verified. No user appears, and
  the ledger changes at all only for such a verified request.
\<close>

theorem is_paid_monotone:
  assumes "handle env req w = (r, w')"
  shows "(\<forall>i u. users w i = Some u \<longrightarrow>
            (\<exists>u'. users w' i = Some u'
               \<and> (user_is_paid u \<longrightarrow> user_is_paid u')
               \<and> (user_is_paid u' \<noteq> user_is_paid u \<longrightarrow> verified_payment env req)))
       \<and> (\<forall>i. users w i = None \<longrightarrow> users w' i = None)
       \<and> (users w' \<noteq> users w \<longrightarrow> verified_payment env req)"
proof (intro conjI allI impI)
  fix i u assume a: "users w i = Some u"
  from handle_users [OF assms, of i] a
  obtain u' where u': "users w' i = Some u'" "u' = u \<or> user_is_paid u'" by auto
  have "user_is_paid u' \<noteq> user_is_paid u \<longrightarrow> verified_payment env req"
  proof (rule impI, rule ccontr)
    assume d: "user_is_paid u' \<noteq> user_is_paid u" and n: "\<not> verified_payment env req"
    from handle_unverified [OF assms n] a u'(1) have "u' = u" by simp
    with d show False by simp
  qed
  with u' show "\<exists>u'. users w' i = Some u'
               \<and> (user_is_paid u \<longrightarrow> user_is_paid u')
               \<and> (user_is_paid u' \<noteq> user_is_paid u \<longrightarrow> verified_payment env req)"
    by auto
next
  fix i assume "users w i = None"
  with handle_users [OF assms, of i] show "users w' i = None" by auto
next
  assume "users w' \<noteq> users w"
  with handle_unverified [OF assms] show "verified_payment env req" by blast
qed

theorem is_paid_monotone_witness:
  "handle demo_env (StripeWebhook ''paid1'' ''good'') demo_world
     = (Ok (Ack ''success''), demo_after_stripe)
   \<and> users demo_world 2 = Some demo_paid \<and> user_is_paid demo_paid
   \<and> users demo_after_stripe 2 = Some demo_paid
   \<and> users demo_world 1 = Some demo_unpaid \<and> \<not> user_is_paid demo_unpaid
   \<and> users demo_after_stripe 1
       = Some (demo_unpaid\<lparr>user_is_paid := True, user_stripe_customer_id := Some ''cus_1''\<rparr>)
   \<and> verified_payment demo_env (StripeWebhook ''paid1'' ''good'')
   \<and> users demo_world 7 = None \<and> users demo_after_stripe 7 = None
   \<and> users demo_after_stripe \<noteq> users demo_world"
proof -
  have h: "handle demo_env (StripeWebhook ''paid1'' ''good'') demo_world
             = (Ok (Ack ''success''), demo_after_stripe)"
    using demo_first_stripe by simp
  have before: "users demo_world 2 = Some demo_paid" "user_is_paid demo_paid"
    "users demo_world 1 = Some demo_unpaid" "\<not> user_is_paid demo_unpaid"
    "users demo_world 7 = None"
    by (simp_all add: demo_world_def demo_paid_def demo_unpaid_def)
  have after: "users demo_after_stripe 2 = Some demo_paid"
    "users demo_after_stripe 1
       = Some (demo_unpaid\<lparr>user_is_paid := True, user_stripe_customer_id := Some ''cus_1''\<rparr>)"
    by (simp_all add: demo_after_stripe_def handler_defs demo_defs redis_defs int_defs)
  have changed: "users demo_after_stripe \<noteq> users demo_world"
  proof
    assume "users demo_after_stripe = users demo_world"
    then have "users demo_after_stripe 1 = users demo_world 1" by simp
    with after(2) before(3) show False by (simp add: demo_unpaid_def)
  qed
  from is_paid_monotone [OF h] before after changed
  show ?thesis using h by auto
qed

subsection \<open>The fixed window\<close>

lemma check_first:
  assumes "connected w" "live w (rate_key client path) = None"
  shows "check_rate_limit lim client path w
           = ((if 1 > max_requests lim then too_many lim else Ok Allowed),
              w\<lparr>kv := (kv w)(rate_key client path
                          \<mapsto> (Counter 1, Some (clock w + window_seconds lim)))\<rparr>)"
  using assms
  by (simp add: check_rate_limit_def redis_incr_def redis_expire_def live_def too_many_def Let_def)

lemma check_next:
  assumes "connected w" "live w (rate_key client path) = Some (Counter n, e)" "n \<noteq> 0"
  shows "check_rate_limit lim client path w
           = ((if n + 1 > max_requests lim then too_many lim else Ok Allowed),
              w\<lparr>kv := (kv w)(rate_key client path \<mapsto> (Counter (n + 1), e))\<rparr>)"
  using assms
  by (simp add: check_rate_limit_def redis_incr_def too_many_def Let_def)

lemma check_step:
  assumes "connected w" "redis_incr w (rate_key client path) = (Inr n, w1)"
  shows "check_rate_limit lim client path w
           = ((if n > max_requests lim then too_many lim else Ok Allowed),
              (if n = 1 then snd (redis_expire w1 (rate_key client path) (window_seconds lim))
               else w1))"
  using assms by (simp add: check_rate_limit_def too_many_def Let_def)

lemma live_in_window:
  "kv w k = Some (v, Some e) \<Longrightarrow> clock w + d < e \<Longrightarrow> live (advance d w) k = Some (v, Some e)"
  by (simp add: live_def advance_def)

lemma fst_run_requests_Cons:
  "fst (run_requests lim client path (d # ds) w)
     = fst (check_rate_limit lim client path (advance d w))
       # fst (run_requests lim client path ds
               (snd (check_rate_limit lim client path (advance d w))))"
  by (simp split: prod.splits)

lemma run_in_window:
  "connected w \<Longrightarrow> kv w (rate_key client path) = Some (Counter n, Some e) \<Longrightarrow> 1 \<le> n \<Longrightarrow>
   \<forall>d\<in>set ds. 0 \<le> d \<Longrightarrow> clock w + sum_list ds < e \<Longrightarrow>
     fst (run_requests lim client path ds w) = verdicts lim n ds"
proof (induction ds arbitrary: w n)
  case Nil
  then show ?case by simp
next
  case (Cons d ds)
  let ?k = "rate_key client path"
  let ?w = "advance d w"
  let ?w1 = "?w\<lparr>kv := (kv ?w)(?k \<mapsto> (Counter (n + 1), Some e))\<rparr>"
  have nonneg: "0 \<le> sum_list ds" using Cons.prems(4) by (simp add: sum_list_nonneg)
  have conn: "connected ?w" using Cons.prems(1) by (simp add: advance_def)
  have lv: "live ?w ?k = Some (Counter n, Some e)"
    using Cons.prems(2,5) nonneg by (intro live_in_window) auto
  have n0: "n \<noteq> 0" using Cons.prems(3) by simp
  have step: "check_rate_limit lim client path ?w
                = ((if n + 1 > max_requests lim then too_many lim else Ok Allowed), ?w1)"
    using check_next [OF conn lv n0] .
  have "fst (run_requests lim client path ds ?w1) = verdicts lim (n + 1) ds"
  proof (rule Cons.IH)
    show "connected ?w1" using conn by simp
    show "kv ?w1 ?k = Some (Counter (n + 1), Some e)" by simp
    show "1 \<le> n + 1" using Cons.prems(3) by simp
    show "\<forall>d\<in>set ds. 0 \<le> d" using Cons.prems(4) by simp
    show "clock ?w1 + sum_list ds < e" using Cons.prems(5) by (simp add: advance_def)
  qed
  then show ?case using step by (simp only: fst_run_requests_Cons) simp
qed

lemma verdicts_exact:
  "0 \<le> n \<Longrightarrow> n + int (length ds) = max_requests lim + 1 \<Longrightarrow> ds \<noteq> [] \<Longrightarrow>
     verdicts lim n ds = replicate (length ds - 1) (Ok Allowed) @ [too_many lim]"
proof (induction ds arbitrary: n)
  case Nil
  then show ?case by simp
next
  case (Cons d ds)
  show ?case
  proof (cases ds)
    case Nil
    with Cons.prems show ?thesis by simp
  next
    case (Cons d' ds')
    with Cons.prems Cons.IH [of "n + 1"] show ?thesis by simp
  qed
qed

lemma run_from_fresh:
  assumes "connected w" "live (advance d0 w) (rate_key client path) = None"
    and "\<forall>d\<in>set ds. 0 \<le> d" "sum_list ds < window_seconds lim"
  shows "fst (run_requests lim client path (d0 # ds) w) = verdicts lim 0 (d0 # ds)"
proof -
  let ?k = "rate_key client path"
  let ?w = "advance d0 w"
  let ?w1 = "?w\<lparr>kv := (kv ?w)(?k \<mapsto> (Counter 1, Some (clock ?w + window_seconds lim)))\<rparr>"
  have conn: "connected ?w" using assms(1) by (simp add: advance_def)
  have step: "check_rate_limit lim client path ?w
                = ((if 1 > max_requests lim then too_many lim else Ok Allowed), ?w1)"
    using check_first [OF conn assms(2)] .
  have "fst (run_requests lim client path ds ?w1) = verdicts lim 1 ds"
  proof (rule run_in_window)
    show "connected ?w1" using conn by simp
    show "kv ?w1 ?k = Some (Counter 1, Some (clock ?w + window_seconds lim))" by simp
    show "(1::int) \<le> 1" by simp
    show "\<forall>d\<in>set ds. 0 \<le> d" using assms(3) .
    show "clock ?w1 + sum_list ds < clock ?w + window_seconds lim" using assms(4) by simp
  qed
  then show ?thesis using step by (simp only: fst_run_requests_Cons) simp
qed

text \<open>
  Claim C6. With Redis connected, \<open>check_rate_limit\<close> is the fixed-window counter: it
  increments the counter of the key; exactly when the increment returned 1 it sets the
  expiry of the key to the window length; exactly when the count is above the ceiling it
  answers HTTP 429, whose detail names the window length, and it allows otherwise. A first
  request on a key that is not there leaves the counter at 1 expiring one window later; a
  later request adds one and keeps the expiry. So, for a ceiling \<open>N \<ge> 0\<close> and a key that
  is not there, of \<open>N + 1\<close> requests that all arrive within one window of the first, the
  first \<open>N\<close> are allowed and the last is rejected.
\<close>

theorem fixed_window_rate_limit:
  assumes "connected w"
  shows "(redis_incr w (rate_key client path) = (Inr n, w1) \<longrightarrow>
            check_rate_limit lim client path w
              = ((if n > max_requests lim then too_many lim else Ok Allowed),
                 (if n = 1
                  then snd (redis_expire w1 (rate_key client path) (window_seconds lim))
                  else w1)))
       \<and> (live w (rate_key client path) = None \<longrightarrow>
            kv (snd (check_rate_limit lim client path w)) (rate_key client path)
              = Some (Counter 1, Some (clock w + window_seconds lim)))
       \<and> (live w (rate_key client path) = Some (Counter c, e) \<and> c \<noteq> 0 \<longrightarrow>
            kv (snd (check_rate_limit lim client path w)) (rate_key client path)
              = Some (Counter (c + 1), e))
       \<and> (live (advance d0 w) (rate_key client path) = None
            \<and> 0 \<le> max_requests lim \<and> length ds = nat (max_requests lim)
            \<and> (\<forall>d\<in>set ds. 0 \<le> d) \<and> sum_list ds < window_seconds lim \<longrightarrow>
            fst (run_requests lim client path (d0 # ds) w)
              = replicate (nat (max_requests lim)) (Ok Allowed) @ [too_many lim])"
proof (intro conjI impI)
  assume "redis_incr w (rate_key client path) = (Inr n, w1)"
  then show "check_rate_limit lim client path w
              = ((if n > max_requests lim then too_many lim else Ok Allowed),
                 (if n = 1
                  then snd (redis_expire w1 (rate_key client path) (window_seconds lim))
                  else w1))"
    using check_step [OF assms] by simp
next
  assume "live w (rate_key client path) = None"
  then show "kv (snd (check_rate_limit lim client path w)) (rate_key client path)
              = Some (Counter 1, Some (clock w + window_seconds lim))"
    using check_first [OF assms] by simp
next
  assume "live w (rate_key client path) = Some (Counter c, e) \<and> c \<noteq> 0"
  then show "kv (snd (check_rate_limit lim client path w)) (rate_key client path)
              = Some (Counter (c + 1), e)"
    using check_next [OF assms] by simp
next
  assume a: "live (advance d0 w) (rate_key client path) = None
            \<and> 0 \<le> max_requests lim \<and> length ds = nat (max_requests lim)
            \<and> (\<forall>d\<in>set ds. 0 \<le> d) \<and> sum_list ds < window_seconds lim"
  then have "fst (run_requests lim client path (d0 # ds) w) = verdicts lim 0 (d0 # ds)"
    using run_from_fresh [OF assms] by blast
  also have "\<dots> = replicate (length (d0 # ds) - 1) (Ok Allowed) @ [too_many lim]"
    using a by (intro verdicts_exact) auto
  finally show "fst (run_requests lim client path (d0 # ds) w)
              = replicate (nat (max_requests lim)) (Ok Allowed) @ [too_many lim]"
    using a by simp
qed


lemma demo_too_many:
  "too_many auth_rate_limiter = HTTPError 429 ''Rate limit exceeded. Try again in 60 seconds.''"
proof -
  have "str_int 60 = ''60''" by code_simp
  then show ?thesis by (simp add: too_many_def auth_rate_limiter_def)
qed

theorem fixed_window_rate_limit_witness:
  "connected demo_world
   \<and> redis_incr demo_world (rate_key None ''/auth/login'') = (Inr 1, demo_counted)
   \<and> check_rate_limit auth_rate_limiter None ''/auth/login'' demo_world
       = (Ok Allowed, demo_first_request)
   \<and> live demo_world (rate_key None ''/auth/login'') = None
   \<and> kv demo_first_request (rate_key None ''/auth/login'') = Some (Counter 1, Some 60)
   \<and> connected demo_first_request
   \<and> live demo_first_request (rate_key None ''/auth/login'') = Some (Counter 1, Some 60)
   \<and> kv (snd (check_rate_limit auth_rate_limiter None ''/auth/login'' demo_first_request))
          (rate_key None ''/auth/login'') = Some (Counter 2, Some 60)
   \<and> live (advance 0 demo_world) (rate_key None ''/auth/login'') = None
   \<and> 0 \<le> max_requests auth_rate_limiter
   \<and> length [1, 1, 1, 1, 1 :: int] = nat (max_requests auth_rate_limiter)
   \<and> sum_list [1, 1, 1, 1, 1] < window_seconds auth_rate_limiter
   \<and> fst (run_requests auth_rate_limiter None ''/auth/login'' [0, 1, 1, 1, 1, 1] demo_world)
       = [Ok Allowed, Ok Allowed, Ok Allowed, Ok Allowed, Ok Allowed,
          HTTPError 429 ''Rate limit exceeded. Try again in 60 seconds.'']"
proof -
  have c: "connected demo_world" "connected demo_first_request"
    by (simp_all add: demo_world_def demo_first_request_def)
  have k: "rate_key None ''/auth/login'' = ''ratelimit:/auth/login:unknown''"
    by (simp add: rate_key_def)
  have f: "redis_incr demo_world (rate_key None ''/auth/login'') = (Inr 1, demo_counted)"
    "snd (redis_expire demo_counted (rate_key None ''/auth/login'') 60) = demo_first_request"
    "live demo_world (rate_key None ''/auth/login'') = None"
    "live (advance 0 demo_world) (rate_key None ''/auth/login'') = None"
    "live demo_first_request (rate_key None ''/auth/login'') = Some (Counter 1, Some 60)"
    "kv demo_first_request (rate_key None ''/auth/login'') = Some (Counter 1, Some 60)"
    by (simp_all add: k redis_incr_def redis_expire_def live_def advance_def demo_world_def
          demo_counted_def demo_first_request_def)
  have l: "max_requests auth_rate_limiter = 5" "window_seconds auth_rate_limiter = 60"
    by (simp_all add: auth_rate_limiter_def)
  have r: "replicate (nat 5) (Ok Allowed) = [Ok Allowed, Ok Allowed, Ok Allowed, Ok Allowed, Ok Allowed]"
    by (simp add: eval_nat_numeral)
  from fixed_window_rate_limit [OF c(1), where client = None and path = "''/auth/login''"
          and lim = auth_rate_limiter and n = 1 and ?w1.0 = demo_counted
          and ?d0.0 = 0 and ds = "[1, 1, 1, 1, 1]"]
       fixed_window_rate_limit [OF c(2), where client = None and path = "''/auth/login''"
          and lim = auth_rate_limiter and c = 1 and e = "Some 60"]
       c f l r demo_too_many
  show ?thesis by simp
qed

end
